theory Spec2Isabelle
  imports Main "HOL-Library.Sublist"
begin

section \<open>Byte slices and the helpers of Go's \<^verbatim>\<open>bytes\<close> package\<close>

text \<open>
  A Go \<^verbatim>\<open>[]byte\<close> or \<^verbatim>\<open>string\<close> is a list of 8-bit characters. The three helpers
  below are the standard library's \<^verbatim>\<open>bytes.CutPrefix\<close>, \<^verbatim>\<open>bytes.CutSuffix\<close> and
  \<^verbatim>\<open>bytes.Cut\<close>; \<^verbatim>\<open>bytes.HasPrefix\<close> is \<^const>\<open>prefix\<close> and \<^verbatim>\<open>bytes.Equal\<close> is equality.
\<close>

type_synonym bytes = string

definition CutPrefix :: "bytes \<Rightarrow> bytes \<Rightarrow> bytes option" where
  "CutPrefix s p = (if prefix p s then Some (drop (length p) s) else None)"

definition CutSuffix :: "bytes \<Rightarrow> bytes \<Rightarrow> bytes option" where
  "CutSuffix s q = (if suffix q s then Some (take (length s - length q) s) else None)"

text \<open>
  \<^verbatim>\<open>bytes.Cut(s, sep)\<close> slices \<open>s\<close> around the first instance of \<open>sep\<close> and
  returns \<open>(before, after, found)\<close>; when \<open>sep\<close> does not occur it returns
  \<open>(s, nil, false)\<close>.
\<close>

fun Cut :: "bytes \<Rightarrow> bytes \<Rightarrow> bytes \<times> bytes \<times> bool" where
  "Cut [] sep = (if sep = [] then ([], [], True) else ([], [], False))"
| "Cut (x # xs) sep =
     (if prefix sep (x # xs) then ([], drop (length sep) (x # xs), True)
      else (case Cut xs sep of (before, after, found) \<Rightarrow> (x # before, after, found)))"

section \<open>Errors\<close>

text \<open>
  Every error value the package can return. The first three are the sentinels of the
  pkt-line scanner; \<open>EOF\<close>, \<open>ErrUnexpectedEOF\<close> and \<open>ErrInvalidLength\<close> are the scanner's
  genuine faults; \<open>Errorf f a\<close> is \<^verbatim>\<open>fmt.Errorf(f, a)\<close> with the format string \<open>f\<close> and
  its one argument \<open>a\<close>, kept apart so that the quoting done by \<^verbatim>\<open>%q\<close> need not be
  modelled; \<open>WriteError m\<close> is an error returned by a caller-supplied \<^verbatim>\<open>io.Writer\<close>.
\<close>

datatype error =
    ErrFlushPkt
  | ErrDelimPkt
  | ErrResponseEndPkt
  | EOF
  | ErrUnexpectedEOF
  | ErrInvalidLength
  | Errorf string bytes
  | WriteError string

text \<open>
  The text of an error built with the verb \<^verbatim>\<open>%s\<close>, which inserts its argument
  unchanged: the format up to the verb followed by the argument.
\<close>

definition Error_s :: "string \<Rightarrow> bytes \<Rightarrow> string" where
  "Error_s f a = take (length f - 2) f @ a"

section \<open>The pkt-line framing primitive\<close>

text \<open>
  The package \<^verbatim>\<open>github.com/bored-engineer/git-pkt-line\<close> is an external collaborator:
  its source is not part of this repository. Its functions are modelled from the spec,
  which fixes the wire format: each framed unit is a length of four hexadecimal digits,
  which counts the four digits themselves, followed by the payload; \<^verbatim>\<open>0000\<close> is the
  flush marker, \<^verbatim>\<open>0001\<close> the delimiter and \<^verbatim>\<open>0002\<close> the response-end marker.
\<close>

text \<open>
  Modelled from the spec: one hexadecimal digit of the length. The repository's test
  fixes the digits as lower case (\<^verbatim>\<open>000eversion 2\<close>).
\<close>

definition hexdigit :: "nat \<Rightarrow> char" where
  "hexdigit d = ''0123456789abcdef'' ! (d mod 16)"

text \<open>
  Modelled from the spec: the four digits of a length. A length that does not fit four
  digits keeps its low 16 bits.
\<close>

definition hex4 :: "nat \<Rightarrow> bytes" where
  "hex4 n = [hexdigit (n div 4096), hexdigit (n div 256), hexdigit (n div 16), hexdigit n]"

text \<open>
  Modelled from the spec: \<^verbatim>\<open>pktline.AppendLength(b, n)\<close> appends the length digits of a
  unit whose payload has \<open>n\<close> bytes; the caller appends the payload.
\<close>

definition AppendLength :: "bytes \<Rightarrow> nat \<Rightarrow> bytes" where
  "AppendLength b n = b @ hex4 (n + 4)"

text \<open>
  Modelled from the spec: \<^verbatim>\<open>pktline.AppendString(b, s)\<close> appends the unit whose payload
  is \<open>s\<close>.
\<close>

definition AppendString :: "bytes \<Rightarrow> string \<Rightarrow> bytes" where
  "AppendString b s = AppendLength b (length s) @ s"

text \<open>
  Modelled from the spec: \<^verbatim>\<open>pktline.AppendFlushPkt\<close> appends the flush marker.
\<close>

definition AppendFlushPkt :: "bytes \<Rightarrow> bytes" where
  "AppendFlushPkt b = b @ ''0000''"

text \<open>
  Modelled from the spec: \<^verbatim>\<open>pktline.AppendDelimPkt\<close> appends the delimiter marker.
\<close>

definition AppendDelimPkt :: "bytes \<Rightarrow> bytes" where
  "AppendDelimPkt b = b @ ''0001''"

text \<open>
  Modelled from the spec: the value of a hexadecimal digit read by the scanner, in
  either case; \<open>None\<close> for any other byte.
\<close>

definition hexval :: "char \<Rightarrow> nat option" where
  "hexval c =
     (let n = (of_char c :: nat) in
      if 48 \<le> n \<and> n \<le> 57 then Some (n - 48)
      else if 97 \<le> n \<and> n \<le> 102 then Some (n - 87)
      else if 65 \<le> n \<and> n \<le> 70 then Some (n - 55)
      else None)"

text \<open>
  Modelled from the spec: the length written by four digits.
\<close>

fun parse_length :: "bytes \<Rightarrow> nat option" where
  "parse_length [a, b, c, d] =
     (case (hexval a, hexval b, hexval c, hexval d) of
        (Some x, Some y, Some z, Some w) \<Rightarrow> Some (x * 4096 + y * 256 + z * 16 + w)
      | _ \<Rightarrow> None)"
| "parse_length _ = None"

text \<open>
  Modelled from the spec: \<^verbatim>\<open>pktline.Scanner\<close> is the unread rest of the input, and
  \<^verbatim>\<open>Scanner.Scan\<close> returns the next payload, or an error that is either one of the
  boundary sentinels or a fault, together with the scanner after the read. An exhausted
  input is \<open>EOF\<close>; an input that ends inside a unit is \<open>ErrUnexpectedEOF\<close>; digits that
  are not hexadecimal, and the length 3, which no unit has, are \<open>ErrInvalidLength\<close>.
\<close>

type_synonym Scanner = bytes

definition Scan :: "Scanner \<Rightarrow> (error + bytes) \<times> Scanner" where
  "Scan bs =
     (if bs = [] then (Inl EOF, [])
      else if length bs < 4 then (Inl ErrUnexpectedEOF, [])
      else (case parse_length (take 4 bs) of
              None \<Rightarrow> (Inl ErrInvalidLength, drop 4 bs)
            | Some n \<Rightarrow>
                if n = 0 then (Inl ErrFlushPkt, drop 4 bs)
                else if n = 1 then (Inl ErrDelimPkt, drop 4 bs)
                else if n = 2 then (Inl ErrResponseEndPkt, drop 4 bs)
                else if n = 3 then (Inl ErrInvalidLength, drop 4 bs)
                else if length bs < n then (Inl ErrUnexpectedEOF, [])
                else (Inr (take (n - 4) (drop 4 bs)), drop n bs)))"

text \<open>
  Modelled from the spec: the three side-band channels of \<^verbatim>\<open>pktline\<close>, numbered by the
  first payload byte of a unit: 1 is pack data, 2 is progress, 3 is fatal.
\<close>

definition SideBandPackData :: nat where "SideBandPackData = 1"
definition SideBandProgress :: nat where "SideBandProgress = 2"
definition SideBandFatal :: nat where "SideBandFatal = 3"

text \<open>
  Modelled from the spec: \<^verbatim>\<open>pktline.SideBand(line)\<close> splits a unit of the packfile
  section into the channel, which is the first payload byte, and the remaining bytes.
  A unit with no byte at all has no channel; it is given channel 0, which is none of
  the three.
\<close>

definition SideBand :: "bytes \<Rightarrow> nat \<times> bytes" where
  "SideBand line = (case line of [] \<Rightarrow> (0, []) | c # data \<Rightarrow> (of_char c, data))"

section \<open>Capabilities\<close>

record Capability =
  CapKey :: string
  CapValue :: string

definition Capability_Append :: "Capability \<Rightarrow> bytes \<Rightarrow> bytes" where
  "Capability_Append c b =
     (if length (CapValue c) > 0
      then AppendLength b (length (CapKey c) + 1 + length (CapValue c) + 1)
             @ CapKey c @ ''='' @ CapValue c @ ''\<newline>''
      else AppendLength b (length (CapKey c) + 1) @ CapKey c @ ''\<newline>'')"

text \<open>
  \<open>Parse\<close> has a pointer receiver: the model takes the receiver's value and returns
  it as the call leaves it, next to the error (\<open>None\<close> is Go's \<^verbatim>\<open>nil\<close>).
\<close>

definition Capability_Parse :: "Capability \<Rightarrow> bytes \<Rightarrow> error option \<times> Capability" where
  "Capability_Parse c line =
     (case CutSuffix line ''\<newline>'' of
        None \<Rightarrow> (Some (Errorf ''invalid capability: %q'' line), c)
      | Some remaining \<Rightarrow>
          (case Cut remaining ''='' of (key, val, ok) \<Rightarrow>
             if length key = 0 then (Some (Errorf ''invalid capability: %q'' line), c)
             else if ok then
               (if length val = 0
                then (Some (Errorf ''invalid capability: %q'' line), c\<lparr>CapKey := key\<rparr>)
                else (None, c\<lparr>CapKey := key, CapValue := val\<rparr>))
             else (None, c\<lparr>CapKey := key\<rparr>)))"

type_synonym Capabilities = "Capability list"

definition Capabilities_Append :: "Capabilities \<Rightarrow> bytes \<Rightarrow> bytes" where
  "Capabilities_Append cs b = foldl (\<lambda>b c. Capability_Append c b) b cs"

lemma Scan_Inr_shorter: "Scan sc = (Inr line, sc') \<Longrightarrow> length sc' < length sc"
  by (auto simp: Scan_def split: if_splits option.splits)

lemma Scan_Inl_shorter: "Scan sc = (Inl e, sc') \<Longrightarrow> e \<noteq> EOF \<Longrightarrow> length sc' < length sc"
  by (auto simp: Scan_def split: if_splits option.splits)

function Capabilities_Parse ::
  "Capabilities \<Rightarrow> Scanner \<Rightarrow> error option \<times> Capabilities \<times> Scanner" where
  "Capabilities_Parse cs sc =
     (case Scan sc of
        (Inl err, sc') \<Rightarrow> (Some err, cs, sc')
      | (Inr line, sc') \<Rightarrow>
          (case Capability_Parse \<lparr>CapKey = [], CapValue = []\<rparr> line of
             (Some err, cap) \<Rightarrow> (Some err, cs, sc')
           | (None, cap) \<Rightarrow> Capabilities_Parse (cs @ [cap]) sc'))"
  by pat_completeness auto
termination
  by (relation "measure (\<lambda>(cs, sc). length sc)") (auto dest: Scan_Inr_shorter [OF sym])

section \<open>Capability advertisement\<close>

record CapabilityAdvertisement =
  Capabilities :: Capabilities

definition CapabilityAdvertisement_Append :: "CapabilityAdvertisement \<Rightarrow> bytes \<Rightarrow> bytes" where
  "CapabilityAdvertisement_Append ca b =
     AppendFlushPkt (Capabilities_Append (Capabilities ca) (AppendString b ''version 2\<newline>''))"

definition CapabilityAdvertisement_Parse ::
  "CapabilityAdvertisement \<Rightarrow> Scanner \<Rightarrow> error option \<times> CapabilityAdvertisement \<times> Scanner" where
  "CapabilityAdvertisement_Parse ca sc =
     (case Scan sc of
        (Inl err, sc') \<Rightarrow> (Some err, ca, sc')
      | (Inr version, sc') \<Rightarrow>
          if version \<noteq> ''version 2\<newline>''
          then (Some (Errorf ''invalid protocol-version: %q'' version), ca, sc')
          else (case Capabilities_Parse (Capabilities ca) sc' of (err, cs, sc'') \<Rightarrow>
                  if err \<noteq> None \<and> err \<noteq> Some ErrFlushPkt
                  then (err, ca\<lparr>Capabilities := cs\<rparr>, sc'')
                  else (None, ca\<lparr>Capabilities := cs\<rparr>, sc'')))"

section \<open>Command arguments\<close>

record CommandArgument =
  ArgKey :: string
  ArgValue :: string

definition CommandArgument_Append :: "CommandArgument \<Rightarrow> bytes \<Rightarrow> bytes" where
  "CommandArgument_Append ca b =
     (if length (ArgValue ca) = 0 then AppendString b (ArgKey ca)
      else AppendString b (ArgKey ca @ '' '' @ ArgValue ca))"

definition CommandArgument_Parse ::
  "CommandArgument \<Rightarrow> bytes \<Rightarrow> error option \<times> CommandArgument" where
  "CommandArgument_Parse ca line =
     (case Cut line '' '' of (key, val, ok) \<Rightarrow>
        if length key = 0 then (Some (Errorf ''invalid argument: %q'' line), ca)
        else if ok then
          (if length val = 0
           then (Some (Errorf ''invalid argument: %q'' line), ca\<lparr>ArgKey := key\<rparr>)
           else (None, ca\<lparr>ArgKey := key, ArgValue := val\<rparr>))
        else (None, ca\<lparr>ArgKey := key\<rparr>))"

type_synonym CommandArguments = "CommandArgument list"

definition CommandArguments_Append :: "CommandArguments \<Rightarrow> bytes \<Rightarrow> bytes" where
  "CommandArguments_Append cas b = foldl (\<lambda>b a. CommandArgument_Append a b) b cas"

function CommandArguments_Parse ::
  "CommandArguments \<Rightarrow> Scanner \<Rightarrow> error option \<times> CommandArguments \<times> Scanner" where
  "CommandArguments_Parse cas sc =
     (case Scan sc of
        (Inl err, sc') \<Rightarrow> (Some err, cas, sc')
      | (Inr line, sc') \<Rightarrow>
          (case CommandArgument_Parse \<lparr>ArgKey = [], ArgValue = []\<rparr> line of
             (Some err, ca) \<Rightarrow> (Some err, cas, sc')
           | (None, ca) \<Rightarrow> CommandArguments_Parse (cas @ [ca]) sc'))"
  by pat_completeness auto
termination
  by (relation "measure (\<lambda>(cas, sc). length sc)") (auto dest: Scan_Inr_shorter [OF sym])

section \<open>Command request\<close>

text \<open>
  The field \<^verbatim>\<open>Capabilities\<close> of the request is \<open>ReqCapabilities\<close> here, the name
  being taken by the advertisement's field.
\<close>

record CommandRequest =
  Command :: string
  ReqCapabilities :: Capabilities
  Arguments :: CommandArguments

definition CommandRequest_Append :: "CommandRequest \<Rightarrow> bytes \<Rightarrow> bytes" where
  "CommandRequest_Append cr b =
     AppendFlushPkt
       (foldl (\<lambda>b arg. CommandArgument_Append arg b)
          (AppendDelimPkt
             (Capabilities_Append (ReqCapabilities cr)
                (AppendString b (''command='' @ Command cr @ ''\<newline>''))))
          (Arguments cr))"

definition CommandRequest_Parse ::
  "CommandRequest \<Rightarrow> Scanner \<Rightarrow> error option \<times> CommandRequest \<times> Scanner" where
  "CommandRequest_Parse cr sc =
     (case Scan sc of
        (Inl err, sc1) \<Rightarrow> (Some err, cr, sc1)
      | (Inr line, sc1) \<Rightarrow>
          (case CutSuffix line ''\<newline>'' of
             None \<Rightarrow> (Some (Errorf ''invalid command-request: %q'' line), cr, sc1)
           | Some remaining \<Rightarrow>
               (case CutPrefix remaining ''command='' of
                  None \<Rightarrow> (Some (Errorf ''invalid command-request: %q'' line), cr, sc1)
                | Some command \<Rightarrow>
                    (case Capabilities_Parse (ReqCapabilities cr) sc1 of (err, cs, sc2) \<Rightarrow>
                       if err \<noteq> None \<and> err \<noteq> Some ErrDelimPkt
                       then (err, cr\<lparr>Command := command, ReqCapabilities := cs\<rparr>, sc2)
                       else
                         (case CommandArguments_Parse (Arguments cr) sc2 of
                            (err, cas, sc3) \<Rightarrow>
                              if err \<noteq> None \<and> err \<noteq> Some ErrFlushPkt
                              then (err, cr\<lparr>Command := command, ReqCapabilities := cs,
                                            Arguments := cas\<rparr>, sc3)
                              else (None, cr\<lparr>Command := command, ReqCapabilities := cs,
                                             Arguments := cas\<rparr>, sc3))))))"

section \<open>References\<close>

record Reference =
  RefObjectID :: string
  RefName :: string
  Attributes :: "string list"

definition Reference_Append :: "Reference \<Rightarrow> bytes \<Rightarrow> bytes" where
  "Reference_Append r b =
     (let sz = foldl (\<lambda>sz attr. sz + length '' '' + length attr)
                 (length (RefObjectID r) + length '' '' + length (RefName r)) (Attributes r)
               + length ''\<newline>''
      in foldl (\<lambda>b attr. b @ '' '' @ attr)
           (AppendLength b sz @ RefObjectID r @ '' '' @ RefName r) (Attributes r)
         @ ''\<newline>'')"

lemma Cut_found_shorter:
  "Cut s sep = (before, after, True) \<Longrightarrow> sep \<noteq> [] \<Longrightarrow> length after < length s"
proof (induction s arbitrary: before)
  case Nil
  then show ?case by simp
next
  case (Cons x xs)
  show ?case
  proof (cases "prefix sep (x # xs)")
    case True
    with Cons.prems show ?thesis by auto
  next
    case False
    with Cons.prems obtain b' where "Cut xs sep = (b', after, True)"
      by (auto split: prod.splits)
    from Cons.IH [OF this Cons.prems(2)] show ?thesis by simp
  qed
qed

lemma Cut_space_shorter:
  "(before, after, True) = Cut s '' '' \<Longrightarrow> length after < length s"
  using Cut_found_shorter [of s "'' ''" before after] by simp

text \<open>
  The loop \<^verbatim>\<open>for ok { attr, remaining, ok = bytes.Cut(remaining, " "); ... }\<close> that ends
  \<open>Reference.Parse\<close>, on the attributes collected so far, the unread rest and the
  flag \<open>ok\<close> of the last cut.
\<close>

function Reference_Parse_attrs :: "string list \<Rightarrow> bytes \<Rightarrow> bool \<Rightarrow> string list" where
  "Reference_Parse_attrs attrs remaining ok =
     (if ok then
        (case Cut remaining '' '' of (attr, remaining', ok') \<Rightarrow>
           Reference_Parse_attrs (attrs @ [attr]) remaining' ok')
      else attrs)"
  by pat_completeness auto
termination
  by (relation "measure (\<lambda>(attrs, remaining, ok). if ok then Suc (length remaining) else 0)")
     (auto, erule Cut_space_shorter)

definition Reference_Parse :: "Reference \<Rightarrow> bytes \<Rightarrow> error option \<times> Reference" where
  "Reference_Parse r line =
     (case CutSuffix line ''\<newline>'' of
        None \<Rightarrow> (Some (Errorf ''invalid ref: %q'' line), r)
      | Some remaining \<Rightarrow>
          (case Cut remaining '' '' of (objID, remaining1, ok) \<Rightarrow>
             if \<not> ok then (Some (Errorf ''invalid ref: %q'' line), r)
             else
               (case Cut remaining1 '' '' of (name, remaining2, ok2) \<Rightarrow>
                  (None, r\<lparr>RefObjectID := objID, RefName := name,
                           Attributes := Reference_Parse_attrs (Attributes r) remaining2 ok2\<rparr>))))"

section \<open>Fetch response: the sections\<close>

text \<open>
  The sections of a fetch response tell a \<^verbatim>\<open>nil\<close> slice from an empty one
  (\<open>IsZero\<close> compares with \<^verbatim>\<open>nil\<close>), so their slices are optional lists: \<open>None\<close> is
  \<^verbatim>\<open>nil\<close>. \<open>append_slice\<close> is Go's \<^verbatim>\<open>append(s, x)\<close>, whose result is never \<^verbatim>\<open>nil\<close>;
  \<open>elems\<close> is what \<^verbatim>\<open>range\<close> visits.
\<close>

definition append_slice :: "'a list option \<Rightarrow> 'a \<Rightarrow> 'a list option" where
  "append_slice s x = Some (case s of None \<Rightarrow> [x] | Some xs \<Rightarrow> xs @ [x])"

definition elems :: "'a list option \<Rightarrow> 'a list" where
  "elems s = (case s of None \<Rightarrow> [] | Some xs \<Rightarrow> xs)"

record Acknowledgements =
  Ready :: bool
  NAK :: bool
  ACKs :: "string list option"

definition Acknowledgements_IsZero :: "Acknowledgements \<Rightarrow> bool" where
  "Acknowledgements_IsZero a \<longleftrightarrow> \<not> Ready a \<and> \<not> NAK a \<and> ACKs a = None"

definition Acknowledgements_Append :: "Acknowledgements \<Rightarrow> bytes \<Rightarrow> bytes" where
  "Acknowledgements_Append a b =
     (let b1 = AppendString b ''acknowledgments\<newline>'';
          b2 = (if Ready a then AppendString b1 ''ready\<newline>'' else b1);
          b3 = (if NAK a then AppendString b2 ''NAK\<newline>'' else b2)
      in foldl (\<lambda>b objID.
                  AppendLength b (length ''ACK '' + length objID + length ''\<newline>'')
                    @ ''ACK '' @ objID @ ''\<newline>'')
           b3 (elems (ACKs a)))"

function Acknowledgements_Parse ::
  "Acknowledgements \<Rightarrow> Scanner \<Rightarrow> error option \<times> Acknowledgements \<times> Scanner" where
  "Acknowledgements_Parse a sc =
     (case Scan sc of
        (Inl err, sc') \<Rightarrow> (Some err, a, sc')
      | (Inr line, sc') \<Rightarrow>
          (case CutPrefix line ''ACK '' of
             Some objID \<Rightarrow>
               (case CutSuffix objID ''\<newline>'' of
                  None \<Rightarrow> (Some (Errorf ''invalid ack: %q'' line), a, sc')
                | Some objID' \<Rightarrow>
                    Acknowledgements_Parse (a\<lparr>ACKs := append_slice (ACKs a) objID'\<rparr>) sc')
           | None \<Rightarrow>
               if line = ''NAK\<newline>'' then Acknowledgements_Parse (a\<lparr>NAK := True\<rparr>) sc'
               else if line = ''ready\<newline>'' then Acknowledgements_Parse (a\<lparr>Ready := True\<rparr>) sc'
               else Acknowledgements_Parse a sc'))"
  by pat_completeness auto
termination
  by (relation "measure (\<lambda>(a, sc). length sc)") (auto dest: Scan_Inr_shorter [OF sym])

record Shallow =
  ShallowObjectID :: string

definition Shallow_Append :: "Shallow \<Rightarrow> bytes \<Rightarrow> bytes" where
  "Shallow_Append s b =
     AppendLength b (length ''shallow '' + length (ShallowObjectID s) + length ''\<newline>'')
       @ ''shallow '' @ ShallowObjectID s @ ''\<newline>''"

definition Shallow_Parse :: "Shallow \<Rightarrow> bytes \<Rightarrow> error option \<times> Shallow" where
  "Shallow_Parse s line =
     (case CutSuffix line ''\<newline>'' of
        None \<Rightarrow> (Some (Errorf ''invalid shallow: %q'' line), s)
      | Some remaining \<Rightarrow>
          (case CutPrefix remaining ''shallow '' of
             None \<Rightarrow> (Some (Errorf ''invalid shallow: %q'' line), s)
           | Some objID \<Rightarrow> (None, s\<lparr>ShallowObjectID := objID\<rparr>)))"

record Unshallow =
  UnshallowObjectID :: string

definition Unshallow_Append :: "Unshallow \<Rightarrow> bytes \<Rightarrow> bytes" where
  "Unshallow_Append u b =
     AppendLength b (length ''unshallow '' + length (UnshallowObjectID u) + length ''\<newline>'')
       @ ''unshallow '' @ UnshallowObjectID u @ ''\<newline>''"

definition Unshallow_Parse :: "Unshallow \<Rightarrow> bytes \<Rightarrow> error option \<times> Unshallow" where
  "Unshallow_Parse u line =
     (case CutSuffix line ''\<newline>'' of
        None \<Rightarrow> (Some (Errorf ''invalid unshallow: %q'' line), u)
      | Some remaining \<Rightarrow>
          (case CutPrefix remaining ''unshallow '' of
             None \<Rightarrow> (Some (Errorf ''invalid unshallow: %q'' line), u)
           | Some objID \<Rightarrow> (None, u\<lparr>UnshallowObjectID := objID\<rparr>)))"

record ShallowInfo =
  Shallow :: "Shallow list option"
  Unshallow :: "Unshallow list option"

definition ShallowInfo_IsZero :: "ShallowInfo \<Rightarrow> bool" where
  "ShallowInfo_IsZero si \<longleftrightarrow> Shallow si = None \<and> Unshallow si = None"

definition ShallowInfo_Append :: "ShallowInfo \<Rightarrow> bytes \<Rightarrow> bytes" where
  "ShallowInfo_Append si b =
     foldl (\<lambda>b u. Unshallow_Append u b)
       (foldl (\<lambda>b s. Shallow_Append s b) (AppendString b ''shallow-info\<newline>'')
          (elems (Shallow si)))
       (elems (Unshallow si))"

function ShallowInfo_Parse ::
  "ShallowInfo \<Rightarrow> Scanner \<Rightarrow> error option \<times> ShallowInfo \<times> Scanner" where
  "ShallowInfo_Parse si sc =
     (case Scan sc of
        (Inl err, sc') \<Rightarrow> (Some err, si, sc')
      | (Inr line, sc') \<Rightarrow>
          if prefix ''shallow '' line then
            (case Shallow_Parse \<lparr>ShallowObjectID = []\<rparr> line of
               (Some err, s) \<Rightarrow> (Some err, si, sc')
             | (None, s) \<Rightarrow> ShallowInfo_Parse (si\<lparr>Shallow := append_slice (Shallow si) s\<rparr>) sc')
          else if prefix ''unshallow '' line then
            (case Unshallow_Parse \<lparr>UnshallowObjectID = []\<rparr> line of
               (Some err, u) \<Rightarrow> (Some err, si, sc')
             | (None, u) \<Rightarrow>
                 ShallowInfo_Parse (si\<lparr>Unshallow := append_slice (Unshallow si) u\<rparr>) sc')
          else (Some (Errorf ''invalid shallow-info: %q'' line), si, sc'))"
  by pat_completeness auto
termination
  by (relation "measure (\<lambda>(si, sc). length sc)") (auto dest: Scan_Inr_shorter [OF sym])

record WantedRef =
  WantedObjectID :: string
  WantedName :: string

definition WantedRef_Append :: "WantedRef \<Rightarrow> bytes \<Rightarrow> bytes" where
  "WantedRef_Append wr b =
     AppendLength b (length (WantedObjectID wr) + length '' '' + length (WantedName wr)
                     + length ''\<newline>'')
       @ WantedObjectID wr @ '' '' @ WantedName wr @ ''\<newline>''"

definition WantedRef_Parse :: "WantedRef \<Rightarrow> bytes \<Rightarrow> error option \<times> WantedRef" where
  "WantedRef_Parse wr line =
     (case CutSuffix line ''\<newline>'' of
        None \<Rightarrow> (Some (Errorf ''invalid wanted-ref: %q'' line), wr)
      | Some remaining \<Rightarrow>
          (case Cut remaining '' '' of (objID, name, ok) \<Rightarrow>
             if \<not> ok then (Some (Errorf ''invalid wanted-ref: %q'' line), wr)
             else (None, wr\<lparr>WantedObjectID := objID, WantedName := name\<rparr>)))"

type_synonym WantedRefs = "WantedRef list option"

definition WantedRefs_IsZero :: "WantedRefs \<Rightarrow> bool" where
  "WantedRefs_IsZero wrs \<longleftrightarrow> wrs = None"

definition WantedRefs_Append :: "WantedRefs \<Rightarrow> bytes \<Rightarrow> bytes" where
  "WantedRefs_Append wrs b =
     foldl (\<lambda>b wr. WantedRef_Append wr b) (AppendString b ''wanted-refs\<newline>'') (elems wrs)"

function WantedRefs_Parse ::
  "WantedRefs \<Rightarrow> Scanner \<Rightarrow> error option \<times> WantedRefs \<times> Scanner" where
  "WantedRefs_Parse wrs sc =
     (case Scan sc of
        (Inl err, sc') \<Rightarrow> (Some err, wrs, sc')
      | (Inr line, sc') \<Rightarrow>
          (case WantedRef_Parse \<lparr>WantedObjectID = [], WantedName = []\<rparr> line of
             (Some err, wr) \<Rightarrow> (Some err, wrs, sc')
           | (None, wr) \<Rightarrow> WantedRefs_Parse (append_slice wrs wr) sc'))"
  by pat_completeness auto
termination
  by (relation "measure (\<lambda>(wrs, sc). length sc)") (auto dest: Scan_Inr_shorter [OF sym])

record PackfileURI =
  Checksum :: string
  URI :: string

definition PackfileURI_Append :: "PackfileURI \<Rightarrow> bytes \<Rightarrow> bytes" where
  "PackfileURI_Append pu b =
     AppendLength b (length (Checksum pu) + length '' '' + length (URI pu) + length ''\<newline>'')
       @ Checksum pu @ '' '' @ URI pu @ ''\<newline>''"

definition PackfileURI_Parse :: "PackfileURI \<Rightarrow> bytes \<Rightarrow> error option \<times> PackfileURI" where
  "PackfileURI_Parse pu line =
     (case CutSuffix line ''\<newline>'' of
        None \<Rightarrow> (Some (Errorf ''invalid packfile-uri: %q'' line), pu)
      | Some remaining \<Rightarrow>
          (case Cut remaining '' '' of (checksum, uri, ok) \<Rightarrow>
             if \<not> ok then (Some (Errorf ''invalid packfile-uri: %q'' line), pu)
             else (None, pu\<lparr>Checksum := checksum, URI := uri\<rparr>)))"

type_synonym PackfileURIs = "PackfileURI list option"

definition PackfileURIs_IsZero :: "PackfileURIs \<Rightarrow> bool" where
  "PackfileURIs_IsZero pus \<longleftrightarrow> pus = None"

definition PackfileURIs_Append :: "PackfileURIs \<Rightarrow> bytes \<Rightarrow> bytes" where
  "PackfileURIs_Append pus b =
     foldl (\<lambda>b pu. PackfileURI_Append pu b) (AppendString b ''packfile-uris\<newline>'') (elems pus)"

function PackfileURIs_Parse ::
  "PackfileURIs \<Rightarrow> Scanner \<Rightarrow> error option \<times> PackfileURIs \<times> Scanner" where
  "PackfileURIs_Parse pus sc =
     (case Scan sc of
        (Inl err, sc') \<Rightarrow> (Some err, pus, sc')
      | (Inr line, sc') \<Rightarrow>
          (case PackfileURI_Parse \<lparr>Checksum = [], URI = []\<rparr> line of
             (Some err, pu) \<Rightarrow> (Some err, pus, sc')
           | (None, pu) \<Rightarrow> PackfileURIs_Parse (append_slice pus pu) sc'))"
  by pat_completeness auto
termination
  by (relation "measure (\<lambda>(pus, sc). length sc)") (auto dest: Scan_Inr_shorter [OF sym])

section \<open>Fetch response\<close>

record FetchResponse =
  Acknowledgements :: Acknowledgements
  ShallowInfo :: ShallowInfo
  WantedRefs :: WantedRefs
  PackfileURIs :: PackfileURIs

text \<open>
  \<open>FetchResponse.Append\<close>. The statements after the acknowledgements block are the
  local function \<open>sections\<close>: the early \<^verbatim>\<open>return\<close> on \<open>NAK\<close> skips them.
\<close>

definition FetchResponse_Append :: "FetchResponse \<Rightarrow> bytes \<Rightarrow> bytes" where
  "FetchResponse_Append fr b =
     (let sections = (\<lambda>b.
            let b = (if \<not> ShallowInfo_IsZero (ShallowInfo fr)
                     then ShallowInfo_Append (ShallowInfo fr) b else b);
                b = (if \<not> WantedRefs_IsZero (WantedRefs fr)
                     then WantedRefs_Append (WantedRefs fr) b else b);
                b = (if \<not> PackfileURIs_IsZero (PackfileURIs fr)
                     then PackfileURIs_Append (PackfileURIs fr) b else b)
            in AppendString b ''packfile\<newline>'')
      in if \<not> Acknowledgements_IsZero (Acknowledgements fr) then
           (let b = Acknowledgements_Append (Acknowledgements fr) b
            in if NAK (Acknowledgements fr) then AppendFlushPkt b
               else sections (AppendDelimPkt b))
         else sections b)"

text \<open>
  A caller-supplied \<^verbatim>\<open>io.Writer\<close> is an object: its \<^verbatim>\<open>Write\<close> method and its state.
  The method may fail, and it may change the state even then. The \<^verbatim>\<open>nil\<close> writer is
  \<open>None\<close>. \<open>Buffer\<close> is a writer that keeps every byte it is given and never fails,
  as \<^verbatim>\<open>bytes.Buffer\<close> does.
\<close>

datatype 'w Writer = Writer (WriteFn: "'w \<Rightarrow> bytes \<Rightarrow> error option \<times> 'w") (WriterState: 'w)

definition Write :: "'w Writer \<Rightarrow> bytes \<Rightarrow> error option \<times> 'w Writer" where
  "Write w data =
     (case WriteFn w (WriterState w) data of (err, s') \<Rightarrow> (err, Writer (WriteFn w) s'))"

definition Buffer :: "bytes \<Rightarrow> bytes Writer" where
  "Buffer s = Writer (\<lambda>s data. (None, s @ data)) s"

text \<open>
  The inner loop of \<open>FetchResponse.Parse\<close>, entered after the line \<^verbatim>\<open>packfile\<close>: it
  routes each side-band unit to the packfile writer or the progress writer until the
  flush marker. It does not touch the response value.
\<close>

function FetchResponse_Parse_packfile ::
  "Scanner \<Rightarrow> 'p Writer option \<Rightarrow> 'q Writer option
     \<Rightarrow> error option \<times> Scanner \<times> 'p Writer option \<times> 'q Writer option" where
  "FetchResponse_Parse_packfile sc packfile progress =
     (case Scan sc of
        (Inl err, sc') \<Rightarrow>
          if err = ErrFlushPkt then (None, sc', packfile, progress)
          else (Some err, sc', packfile, progress)
      | (Inr line, sc') \<Rightarrow>
          (case SideBand line of (sideband, data) \<Rightarrow>
             if sideband = SideBandPackData then
               (case packfile of
                  None \<Rightarrow> FetchResponse_Parse_packfile sc' packfile progress
                | Some w \<Rightarrow>
                    (case Write w data of
                       (Some err, w') \<Rightarrow> (Some err, sc', Some w', progress)
                     | (None, w') \<Rightarrow> FetchResponse_Parse_packfile sc' (Some w') progress))
             else if sideband = SideBandProgress then
               (case progress of
                  None \<Rightarrow> FetchResponse_Parse_packfile sc' packfile progress
                | Some w \<Rightarrow>
                    (case Write w data of
                       (Some err, w') \<Rightarrow> (Some err, sc', packfile, Some w')
                     | (None, w') \<Rightarrow> FetchResponse_Parse_packfile sc' packfile (Some w')))
             else if sideband = SideBandFatal then
               (Some (Errorf ''fatal: %s'' data), sc', packfile, progress)
             else (Some (Errorf ''invalid sideband: %q'' line), sc', packfile, progress)))"
  by pat_completeness auto
termination
  by (relation "measure (\<lambda>(sc, packfile, progress). length sc)")
     (auto dest: Scan_Inr_shorter [OF sym])

declare Capabilities_Parse.simps [simp del]
declare CommandArguments_Parse.simps [simp del]
declare Reference_Parse_attrs.simps [simp del]
declare Acknowledgements_Parse.simps [simp del]
declare ShallowInfo_Parse.simps [simp del]
declare WantedRefs_Parse.simps [simp del]
declare PackfileURIs_Parse.simps [simp del]
declare FetchResponse_Parse_packfile.simps [simp del]

text \<open>
  Each section decoder is a loop with no exit but \<^verbatim>\<open>return err\<close>: whatever it returns
  is an error, the boundary sentinels included.
\<close>

lemma Acknowledgements_Parse_error: "fst (Acknowledgements_Parse a sc) \<noteq> None"
proof (induction a sc rule: Acknowledgements_Parse.induct)
  case (1 a sc)
  show ?case
  proof (cases "Scan sc")
    case (Pair r sc')
    show ?thesis
    proof (cases r)
      case (Inl e)
      with Pair show ?thesis by (subst Acknowledgements_Parse.simps) simp
    next
      case (Inr line)
      note IH = "1.IH" [OF Pair [symmetric] Inr]
      show ?thesis
        using Pair Inr IH
        by (subst Acknowledgements_Parse.simps) (simp split: option.splits)
    qed
  qed
qed

lemma ShallowInfo_Parse_error: "fst (ShallowInfo_Parse si sc) \<noteq> None"
proof (induction si sc rule: ShallowInfo_Parse.induct)
  case (1 si sc)
  show ?case
  proof (cases "Scan sc")
    case (Pair r sc')
    show ?thesis
    proof (cases r)
      case (Inl e)
      with Pair show ?thesis by (subst ShallowInfo_Parse.simps) simp
    next
      case (Inr line)
      note IH = "1.IH" [OF Pair [symmetric] Inr]
      show ?thesis
        using Pair Inr IH
        by (subst ShallowInfo_Parse.simps) (simp split: option.splits prod.splits)
    qed
  qed
qed

lemma WantedRefs_Parse_error: "fst (WantedRefs_Parse wrs sc) \<noteq> None"
proof (induction wrs sc rule: WantedRefs_Parse.induct)
  case (1 wrs sc)
  show ?case
  proof (cases "Scan sc")
    case (Pair r sc')
    show ?thesis
    proof (cases r)
      case (Inl e)
      with Pair show ?thesis by (subst WantedRefs_Parse.simps) simp
    next
      case (Inr line)
      note IH = "1.IH" [OF Pair [symmetric] Inr]
      show ?thesis
        using Pair Inr IH
        by (subst WantedRefs_Parse.simps) (simp split: option.splits prod.splits)
    qed
  qed
qed

lemma PackfileURIs_Parse_error: "fst (PackfileURIs_Parse pus sc) \<noteq> None"
proof (induction pus sc rule: PackfileURIs_Parse.induct)
  case (1 pus sc)
  show ?case
  proof (cases "Scan sc")
    case (Pair r sc')
    show ?thesis
    proof (cases r)
      case (Inl e)
      with Pair show ?thesis by (subst PackfileURIs_Parse.simps) simp
    next
      case (Inr line)
      note IH = "1.IH" [OF Pair [symmetric] Inr]
      show ?thesis
        using Pair Inr IH
        by (subst PackfileURIs_Parse.simps) (simp split: option.splits prod.splits)
    qed
  qed
qed

lemma section_returns_error:
  "(None, a, sc1) = Acknowledgements_Parse a0 sc \<Longrightarrow> False"
  "(None, si, sc2) = ShallowInfo_Parse si0 sc \<Longrightarrow> False"
  "(None, wrs, sc3) = WantedRefs_Parse wrs0 sc \<Longrightarrow> False"
  "(None, pus, sc4) = PackfileURIs_Parse pus0 sc \<Longrightarrow> False"
  using Acknowledgements_Parse_error [of a0 sc] ShallowInfo_Parse_error [of si0 sc]
    WantedRefs_Parse_error [of wrs0 sc] PackfileURIs_Parse_error [of pus0 sc]
  by (metis fst_conv)+

text \<open>
  \<open>FetchResponse.Parse\<close>. The calls of \<^verbatim>\<open>log.Println\<close> write to the process log and
  are left out. The result is the returned error, the response value as the call leaves
  it, the scanner and the two writers.
\<close>

function FetchResponse_Parse ::
  "FetchResponse \<Rightarrow> Scanner \<Rightarrow> 'p Writer option \<Rightarrow> 'q Writer option
     \<Rightarrow> error option \<times> FetchResponse \<times> Scanner \<times> 'p Writer option \<times> 'q Writer option" where
  "FetchResponse_Parse fr sc packfile progress =
     (case Scan sc of
        (Inl err, sc') \<Rightarrow>
          if err = ErrDelimPkt then FetchResponse_Parse fr sc' packfile progress
          else (Some err, fr, sc', packfile, progress)
      | (Inr line, sc') \<Rightarrow>
          if line = ''acknowledgments\<newline>'' then
            (case Acknowledgements_Parse (Acknowledgements fr) sc' of
               (Some err, a, sc'') \<Rightarrow>
                 (Some err, fr\<lparr>Acknowledgements := a\<rparr>, sc'', packfile, progress)
             | (None, a, sc'') \<Rightarrow>
                 FetchResponse_Parse (fr\<lparr>Acknowledgements := a\<rparr>) sc'' packfile progress)
          else if line = ''shallow-info\<newline>'' then
            (case ShallowInfo_Parse (ShallowInfo fr) sc' of
               (Some err, si, sc'') \<Rightarrow>
                 (Some err, fr\<lparr>ShallowInfo := si\<rparr>, sc'', packfile, progress)
             | (None, si, sc'') \<Rightarrow>
                 FetchResponse_Parse (fr\<lparr>ShallowInfo := si\<rparr>) sc'' packfile progress)
          else if line = ''wanted-refs\<newline>'' then
            (case WantedRefs_Parse (WantedRefs fr) sc' of
               (Some err, wrs, sc'') \<Rightarrow>
                 (Some err, fr\<lparr>WantedRefs := wrs\<rparr>, sc'', packfile, progress)
             | (None, wrs, sc'') \<Rightarrow>
                 FetchResponse_Parse (fr\<lparr>WantedRefs := wrs\<rparr>) sc'' packfile progress)
          else if line = ''packfile-uris\<newline>'' then
            (case PackfileURIs_Parse (PackfileURIs fr) sc' of
               (Some err, pus, sc'') \<Rightarrow>
                 (Some err, fr\<lparr>PackfileURIs := pus\<rparr>, sc'', packfile, progress)
             | (None, pus, sc'') \<Rightarrow>
                 FetchResponse_Parse (fr\<lparr>PackfileURIs := pus\<rparr>) sc'' packfile progress)
          else if line = ''packfile\<newline>'' then
            (case FetchResponse_Parse_packfile sc' packfile progress of
               (err, sc'', packfile', progress') \<Rightarrow> (err, fr, sc'', packfile', progress'))
          else (Some (Errorf ''unsupported pkt-line: %q'' line), fr, sc', packfile, progress))"
  by pat_completeness auto
termination
  by (relation "measure (\<lambda>(fr, sc, packfile, progress). length sc)")
     (auto dest: Scan_Inl_shorter [OF sym] section_returns_error)

declare FetchResponse_Parse.simps [simp del]

section \<open>Zero values and values that fit the framing\<close>

text \<open>
  The zero values of the structs, which is what \<^verbatim>\<open>var x T\<close> declares and what every
  decoder of the package starts from.
\<close>

definition Capability_zero :: Capability where
  "Capability_zero = \<lparr>CapKey = [], CapValue = []\<rparr>"

definition CommandArgument_zero :: CommandArgument where
  "CommandArgument_zero = \<lparr>ArgKey = [], ArgValue = []\<rparr>"

definition Reference_zero :: Reference where
  "Reference_zero = \<lparr>RefObjectID = [], RefName = [], Attributes = []\<rparr>"

definition CapabilityAdvertisement_zero :: CapabilityAdvertisement where
  "CapabilityAdvertisement_zero = \<lparr>Capabilities = []\<rparr>"

definition CommandRequest_zero :: CommandRequest where
  "CommandRequest_zero = \<lparr>Command = [], ReqCapabilities = [], Arguments = []\<rparr>"

definition Acknowledgements_zero :: Acknowledgements where
  "Acknowledgements_zero = \<lparr>Ready = False, NAK = False, ACKs = None\<rparr>"

definition ShallowInfo_zero :: ShallowInfo where
  "ShallowInfo_zero = \<lparr>Shallow = None, Unshallow = None\<rparr>"

definition FetchResponse_zero :: FetchResponse where
  "FetchResponse_zero =
     \<lparr>Acknowledgements = Acknowledgements_zero, ShallowInfo = ShallowInfo_zero,
      WantedRefs = None, PackfileURIs = None\<rparr>"

text \<open>
  A payload fits one framed unit when its length plus the four digits can be written
  with four hexadecimal digits.
\<close>

definition fits :: "bytes \<Rightarrow> bool" where
  "fits s \<longleftrightarrow> length s + 4 < 65536"

text \<open>
  A capability that can be sent: the key is not empty and holds no \<^verbatim>\<open>=\<close>, and the
  line fits. An absent value is the empty string, as in the struct.
\<close>

definition Capability_line :: "Capability \<Rightarrow> bytes" where
  "Capability_line c =
     (if CapValue c = [] then CapKey c @ ''\<newline>''
      else CapKey c @ ''='' @ CapValue c @ ''\<newline>'')"

definition Capability_valid :: "Capability \<Rightarrow> bool" where
  "Capability_valid c \<longleftrightarrow>
     CapKey c \<noteq> [] \<and> CHR ''='' \<notin> set (CapKey c) \<and> fits (Capability_line c)"

definition CommandArgument_line :: "CommandArgument \<Rightarrow> bytes" where
  "CommandArgument_line ca =
     (if ArgValue ca = [] then ArgKey ca else ArgKey ca @ '' '' @ ArgValue ca)"

definition CommandArgument_valid :: "CommandArgument \<Rightarrow> bool" where
  "CommandArgument_valid ca \<longleftrightarrow>
     ArgKey ca \<noteq> [] \<and> CHR '' '' \<notin> set (ArgKey ca) \<and> fits (CommandArgument_line ca)"

definition Reference_line :: "Reference \<Rightarrow> bytes" where
  "Reference_line r =
     RefObjectID r @ '' '' @ RefName r @ concat (map (\<lambda>attr. '' '' @ attr) (Attributes r))
       @ ''\<newline>''"

definition Reference_valid :: "Reference \<Rightarrow> bool" where
  "Reference_valid r \<longleftrightarrow>
     CHR '' '' \<notin> set (RefObjectID r) \<and> CHR '' '' \<notin> set (RefName r)
     \<and> (\<forall>attr \<in> set (Attributes r). CHR '' '' \<notin> set attr) \<and> fits (Reference_line r)"

definition CapabilityAdvertisement_valid :: "CapabilityAdvertisement \<Rightarrow> bool" where
  "CapabilityAdvertisement_valid ca \<longleftrightarrow> (\<forall>c \<in> set (Capabilities ca). Capability_valid c)"

definition CommandRequest_valid :: "CommandRequest \<Rightarrow> bool" where
  "CommandRequest_valid cr \<longleftrightarrow>
     fits (''command='' @ Command cr @ ''\<newline>'')
     \<and> (\<forall>c \<in> set (ReqCapabilities cr). Capability_valid c)
     \<and> (\<forall>a \<in> set (Arguments cr). CommandArgument_valid a)"

text \<open>
  The units of a byte stream as the scanner delivers them one after the other: payloads
  and boundary sentinels, up to and including the fault that ends the stream (\<open>EOF\<close>
  for a stream that ends at a unit boundary).
\<close>

function pkt_units :: "Scanner \<Rightarrow> (error + bytes) list" where
  "pkt_units sc =
     (case Scan sc of
        (Inl err, sc') \<Rightarrow>
          if err = ErrFlushPkt \<or> err = ErrDelimPkt \<or> err = ErrResponseEndPkt
          then Inl err # pkt_units sc'
          else [Inl err]
      | (Inr line, sc') \<Rightarrow> Inr line # pkt_units sc')"
  by pat_completeness auto
termination
  by (relation "measure length")
     (auto dest: Scan_Inl_shorter [OF sym] Scan_Inr_shorter [OF sym])

declare pkt_units.simps [simp del]

text \<open>
  A fetch response whose every line fits one framed unit.
\<close>

definition FetchResponse_fits :: "FetchResponse \<Rightarrow> bool" where
  "FetchResponse_fits fr \<longleftrightarrow>
     (\<forall>objID \<in> set (elems (ACKs (Acknowledgements fr))). fits (''ACK '' @ objID @ ''\<newline>''))
     \<and> (\<forall>s \<in> set (elems (Shallow (ShallowInfo fr))).
           fits (''shallow '' @ ShallowObjectID s @ ''\<newline>''))
     \<and> (\<forall>u \<in> set (elems (Unshallow (ShallowInfo fr))).
           fits (''unshallow '' @ UnshallowObjectID u @ ''\<newline>''))
     \<and> (\<forall>wr \<in> set (elems (WantedRefs fr)).
           fits (WantedObjectID wr @ '' '' @ WantedName wr @ ''\<newline>''))
     \<and> (\<forall>pu \<in> set (elems (PackfileURIs fr)).
           fits (Checksum pu @ '' '' @ URI pu @ ''\<newline>''))"

text \<open>
  What the caller of \<open>FetchResponse.Parse\<close> observes afterwards: the error, the response
  value, the unread input, and the state of each writer it supplied.
\<close>

definition observed ::
  "error option \<times> FetchResponse \<times> Scanner \<times> 'p Writer option \<times> 'q Writer option
     \<Rightarrow> error option \<times> FetchResponse \<times> Scanner \<times> 'p option \<times> 'q option" where
  "observed r =
     (case r of (err, fr, sc, packfile, progress) \<Rightarrow>
        (err, fr, sc, map_option WriterState packfile, map_option WriterState progress))"

text \<open>
  The bytes of one unit: a payload in its frame, or the four digits of a marker.
\<close>

fun render :: "error + bytes \<Rightarrow> bytes" where
  "render (Inr line) = AppendString [] line"
| "render (Inl ErrFlushPkt) = AppendFlushPkt []"
| "render (Inl ErrDelimPkt) = AppendDelimPkt []"
| "render (Inl _) = []"

declare render.simps [simp del]

definition Acknowledgements_lines :: "Acknowledgements \<Rightarrow> bytes list" where
  "Acknowledgements_lines a =
     ''acknowledgments\<newline>'' # (if Ready a then [''ready\<newline>''] else [])
       @ (if NAK a then [''NAK\<newline>''] else [])
       @ map (\<lambda>objID. ''ACK '' @ objID @ ''\<newline>'') (elems (ACKs a))"

definition ShallowInfo_lines :: "ShallowInfo \<Rightarrow> bytes list" where
  "ShallowInfo_lines si =
     ''shallow-info\<newline>''
       # map (\<lambda>s. ''shallow '' @ ShallowObjectID s @ ''\<newline>'') (elems (Shallow si))
       @ map (\<lambda>u. ''unshallow '' @ UnshallowObjectID u @ ''\<newline>'') (elems (Unshallow si))"

definition WantedRefs_lines :: "WantedRefs \<Rightarrow> bytes list" where
  "WantedRefs_lines wrs =
     ''wanted-refs\<newline>''
       # map (\<lambda>wr. WantedObjectID wr @ '' '' @ WantedName wr @ ''\<newline>'') (elems wrs)"

definition PackfileURIs_lines :: "PackfileURIs \<Rightarrow> bytes list" where
  "PackfileURIs_lines pus =
     ''packfile-uris\<newline>''
       # map (\<lambda>pu. Checksum pu @ '' '' @ URI pu @ ''\<newline>'') (elems pus)"

definition frames :: "bytes list \<Rightarrow> bytes" where
  "frames ls = concat (map (\<lambda>l. render (Inr l)) ls)"

section \<open>Framing lemmas\<close>

lemma hexval_digits: "\<forall>k \<in> set [0..<16]. hexval (''0123456789abcdef'' ! k) = Some k"
  by code_simp

lemma hexval_hexdigit: "hexval (hexdigit d) = Some (d mod 16)"
proof -
  have "d mod 16 \<in> set [0..<16]" by simp
  with hexval_digits show ?thesis
    unfolding hexdigit_def by blast
qed

lemma hex_digits_value:
  assumes "n < 65536"
  shows "(n div 4096) mod 16 * 4096 + (n div 256) mod 16 * 256 + (n div 16) mod 16 * 16 + n mod 16
         = (n::nat)"
proof -
  have e1: "n div 256 = n div 16 div 16"
    using div_mult2_eq [of n 16 16] by simp
  have e2: "n div 4096 = n div 256 div 16"
    using div_mult2_eq [of n 256 16] by simp
  have a: "n = (n div 16) * 16 + n mod 16" by simp
  have b: "n div 16 = (n div 256) * 16 + (n div 16) mod 16"
    unfolding e1 by simp
  have c: "n div 256 = (n div 4096) * 16 + (n div 256) mod 16"
    unfolding e2 by simp
  have d: "(n div 4096) mod 16 = n div 4096"
    using assms by simp
  from a b c d show ?thesis by linarith
qed

lemma parse_length_hex4:
  assumes "n < 65536"
  shows "parse_length (hex4 n) = Some n"
proof -
  have "parse_length (hex4 n)
        = Some ((n div 4096) mod 16 * 4096 + (n div 256) mod 16 * 256 + (n div 16) mod 16 * 16
                + n mod 16)"
    by (simp add: hex4_def hexval_hexdigit)
  with hex_digits_value [OF assms] show ?thesis by (simp only:)
qed

lemma length_hex4 [simp]: "length (hex4 n) = 4"
  by (simp add: hex4_def)

lemma hex4_not_Nil [simp]: "hex4 n \<noteq> []"
  by (simp add: hex4_def)

lemma Scan_frame:
  assumes "fits s"
  shows "Scan (AppendString [] s @ rest) = (Inr s, rest)"
proof -
  have "parse_length (take 4 (hex4 (length s + 4) @ s @ rest)) = Some (length s + 4)"
    using assms by (simp add: parse_length_hex4 fits_def)
  then show ?thesis
    by (simp add: Scan_def AppendString_def AppendLength_def)
qed

lemma Scan_flush: "Scan (''0000'' @ rest) = (Inl ErrFlushPkt, rest)"
  by (simp add: Scan_def hexval_def)

lemma Scan_delim: "Scan (''0001'' @ rest) = (Inl ErrDelimPkt, rest)"
  by (simp add: Scan_def hexval_def)

lemma Scan_Nil: "Scan [] = (Inl EOF, [])"
  by (simp add: Scan_def)

section \<open>Lemmas on the slice helpers\<close>

lemma Cut_absent: "c \<notin> set s \<Longrightarrow> Cut s [c] = (s, [], False)"
  by (induction s) auto

lemma Cut_first: "c \<notin> set a \<Longrightarrow> Cut (a @ c # b) [c] = (a, b, True)"
  by (induction a) auto

lemma CutSuffix_append [simp]: "CutSuffix (s @ q) q = Some s"
  by (simp add: CutSuffix_def suffix_def)

lemma Cut_char:
  "Cut s [c] = (takeWhile (\<lambda>x. x \<noteq> c) s, tl (dropWhile (\<lambda>x. x \<noteq> c) s), c \<in> set s)"
  by (induction s) auto

lemma tl_Nil_iff: "tl xs = [] \<longleftrightarrow> length xs \<le> Suc 0"
  by (cases xs) auto

section \<open>Lemmas on the decoders\<close>

subsection \<open>Reference lines\<close>

lemma Reference_Parse_attrs_done: "Reference_Parse_attrs attrs remaining False = attrs"
  by (simp add: Reference_Parse_attrs.simps)

lemma Reference_Parse_attrs_pieces:
  assumes "CHR '' '' \<notin> set x" and "\<forall>a \<in> set rest. CHR '' '' \<notin> set a"
  shows "Reference_Parse_attrs attrs (x @ concat (map (\<lambda>a. '' '' @ a) rest)) True
         = attrs @ x # rest"
  using assms
proof (induction rest arbitrary: attrs x)
  case Nil
  then show ?case
    by (subst Reference_Parse_attrs.simps) (simp add: Cut_absent Reference_Parse_attrs_done)
next
  case (Cons a rest)
  let ?tail = "a @ concat (map (\<lambda>a. '' '' @ a) rest)"
  have e: "x @ concat (map (\<lambda>a. '' '' @ a) (a # rest)) = x @ CHR '' '' # ?tail"
    by simp
  have c: "Cut (x @ CHR '' '' # ?tail) '' '' = (x, ?tail, True)"
    by (rule Cut_first [OF Cons.prems(1)])
  have r: "Reference_Parse_attrs (attrs @ [x]) ?tail True = (attrs @ [x]) @ a # rest"
    using Cons.prems by (intro Cons.IH) auto
  show ?case
    unfolding e
    by (subst Reference_Parse_attrs.simps) (simp only: c r prod.case if_True, simp)
qed

lemma Reference_Parse_line:
  assumes "CHR '' '' \<notin> set objID" and "CHR '' '' \<notin> set name"
    and "\<forall>a \<in> set attrs. CHR '' '' \<notin> set a"
  shows "Reference_Parse r (objID @ '' '' @ name @ concat (map (\<lambda>a. '' '' @ a) attrs) @ ''\<newline>'')
         = (None, r\<lparr>RefObjectID := objID, RefName := name,
                     Attributes := Attributes r @ attrs\<rparr>)"
proof -
  let ?tail = "concat (map (\<lambda>a. '' '' @ a) attrs)"
  have "objID @ '' '' @ name @ ?tail @ ''\<newline>'' = (objID @ '' '' @ name @ ?tail) @ ''\<newline>''"
    by simp
  then have suffix: "CutSuffix (objID @ '' '' @ name @ ?tail @ ''\<newline>'') ''\<newline>''
                     = Some (objID @ '' '' @ name @ ?tail)"
    by (simp only: CutSuffix_append)
  have c1: "Cut (objID @ '' '' @ name @ ?tail) '' '' = (objID, name @ ?tail, True)"
    using Cut_first [OF assms(1), of "name @ ?tail"] by simp
  show ?thesis
  proof (cases attrs)
    case Nil
    then have "Cut (name @ ?tail) '' '' = (name, [], False)"
      using assms(2) by (simp add: Cut_absent)
    with suffix c1 Nil show ?thesis
      by (simp add: Reference_Parse_def Reference_Parse_attrs_done)
  next
    case (Cons a rest)
    then have c2: "Cut (name @ ?tail) '' '' = (name, a @ concat (map (\<lambda>a. '' '' @ a) rest), True)"
      using Cut_first [OF assms(2), of "a @ concat (map (\<lambda>a. '' '' @ a) rest)"] by simp
    have "Reference_Parse_attrs (Attributes r) (a @ concat (map (\<lambda>a. '' '' @ a) rest)) True
          = Attributes r @ a # rest"
      using assms(3) Cons by (intro Reference_Parse_attrs_pieces) auto
    with suffix c1 c2 Cons show ?thesis
      by (simp add: Reference_Parse_def)
  qed
qed

subsection \<open>The packfile loop\<close>

lemma FetchResponse_Parse_packfile_fatal:
  assumes "Scan sc = (Inr (CHR 0x03 # data), sc')"
  shows "FetchResponse_Parse_packfile sc packfile progress
         = (Some (Errorf ''fatal: %s'' data), sc', packfile, progress)"
  using assms
  by (subst FetchResponse_Parse_packfile.simps)
     (simp add: SideBand_def SideBandPackData_def SideBandProgress_def SideBandFatal_def)

lemma FetchResponse_Parse_enters_packfile:
  assumes "Scan sc = (Inr ''packfile\<newline>'', sc')"
  shows "FetchResponse_Parse fr sc packfile progress
         = (case FetchResponse_Parse_packfile sc' packfile progress of
              (err, sc'', packfile', progress') \<Rightarrow> (err, fr, sc'', packfile', progress'))"
  using assms by (subst FetchResponse_Parse.simps) simp

lemma Write_Buffer: "Write (Buffer s) data = (None, Buffer (s @ data))"
  by (simp add: Write_def Buffer_def)

lemma FetchResponse_Parse_packfile_data:
  assumes "Scan sc = (Inr (CHR 0x01 # d), sc')"
  shows "FetchResponse_Parse_packfile sc (Some (Buffer p)) progress
         = FetchResponse_Parse_packfile sc' (Some (Buffer (p @ d))) progress"
  using assms
  by (subst FetchResponse_Parse_packfile.simps)
     (simp add: SideBand_def SideBandPackData_def Write_Buffer)

lemma FetchResponse_Parse_packfile_progress:
  assumes "Scan sc = (Inr (CHR 0x02 # d), sc')"
  shows "FetchResponse_Parse_packfile sc packfile (Some (Buffer g))
         = FetchResponse_Parse_packfile sc' packfile (Some (Buffer (g @ d)))"
  using assms
  by (subst FetchResponse_Parse_packfile.simps)
     (simp add: SideBand_def SideBandPackData_def SideBandProgress_def Write_Buffer)

lemma FetchResponse_Parse_packfile_units:
  assumes "\<forall>u \<in> set units. fits u \<and> (\<exists>d. u = CHR 0x01 # d \<or> u = CHR 0x02 # d)"
  shows "FetchResponse_Parse_packfile (concat (map (AppendString []) units) @ rest)
           (Some (Buffer p)) (Some (Buffer g))
         = FetchResponse_Parse_packfile rest
             (Some (Buffer (p @ concat (map tl (filter (\<lambda>u. hd u = CHR 0x01) units)))))
             (Some (Buffer (g @ concat (map tl (filter (\<lambda>u. hd u = CHR 0x02) units)))))"
  using assms
proof (induction units arbitrary: p g)
  case Nil
  then show ?case by simp
next
  case (Cons u units)
  from Cons.prems have fit: "fits u"
    and rest: "\<forall>u \<in> set units. fits u \<and> (\<exists>d. u = CHR 0x01 # d \<or> u = CHR 0x02 # d)"
    by auto
  from Cons.prems obtain d where u: "u = CHR 0x01 # d \<or> u = CHR 0x02 # d"
    by auto
  have scan: "Scan (concat (map (AppendString []) (u # units)) @ rest)
              = (Inr u, concat (map (AppendString []) units) @ rest)"
    using Scan_frame [OF fit, of "concat (map (AppendString []) units) @ rest"] by simp
  from u show ?case
  proof
    assume u1: "u = CHR 0x01 # d"
    show ?thesis
      using FetchResponse_Parse_packfile_data [OF scan [unfolded u1], of p "Some (Buffer g)"]
        Cons.IH [OF rest, of "p @ d" g]
      by (simp add: u1)
  next
    assume u2: "u = CHR 0x02 # d"
    show ?thesis
      using FetchResponse_Parse_packfile_progress [OF scan [unfolded u2], of "Some (Buffer p)" g]
        Cons.IH [OF rest, of p "g @ d"]
      by (simp add: u2)
  qed
qed

section \<open>Lemmas on the encoders: the frames they write\<close>

lemma frames_simps [simp]:
  "frames [] = []" "frames (l # ls) = render (Inr l) @ frames ls"
  "frames (xs @ ys) = frames xs @ frames ys"
  by (simp_all add: frames_def)

lemma AppendString_render: "AppendString b s = b @ render (Inr s)"
  by (simp add: AppendString_def AppendLength_def render.simps)

lemma AppendLength_render:
  "n = length s \<Longrightarrow> AppendLength b n @ s = b @ render (Inr s)"
  by (simp add: AppendString_def AppendLength_def render.simps)

lemma foldl_frames:
  assumes "\<And>b x. f b x = b @ render (Inr (g x))"
  shows "foldl f b xs = b @ frames (map g xs)"
  by (induction xs arbitrary: b) (simp_all add: assms)

lemma Acknowledgements_Append_frames:
  "Acknowledgements_Append a b = b @ frames (Acknowledgements_lines a)"
proof -
  have "foldl (\<lambda>b objID.
                  AppendLength b (length ''ACK '' + length objID + length ''\<newline>'')
                    @ ''ACK '' @ objID @ ''\<newline>'') b' xs
        = b' @ frames (map (\<lambda>objID. ''ACK '' @ objID @ ''\<newline>'') xs)" for b' xs
    by (rule foldl_frames) (simp add: AppendLength_render)
  then show ?thesis
    by (simp add: Acknowledgements_Append_def Acknowledgements_lines_def Let_def
          AppendString_render)
qed

lemma ShallowInfo_Append_frames:
  "ShallowInfo_Append si b = b @ frames (ShallowInfo_lines si)"
proof -
  have s: "foldl (\<lambda>b s. Shallow_Append s b) b' xs
        = b' @ frames (map (\<lambda>s. ''shallow '' @ ShallowObjectID s @ ''\<newline>'') xs)" for b' xs
    by (rule foldl_frames) (simp add: Shallow_Append_def AppendLength_render)
  have u: "foldl (\<lambda>b u. Unshallow_Append u b) b' xs
        = b' @ frames (map (\<lambda>u. ''unshallow '' @ UnshallowObjectID u @ ''\<newline>'') xs)" for b' xs
    by (rule foldl_frames) (simp add: Unshallow_Append_def AppendLength_render)
  show ?thesis
    by (simp add: ShallowInfo_Append_def ShallowInfo_lines_def s u AppendString_render)
qed

lemma WantedRefs_Append_frames:
  "WantedRefs_Append wrs b = b @ frames (WantedRefs_lines wrs)"
proof -
  have "foldl (\<lambda>b wr. WantedRef_Append wr b) b' xs
        = b' @ frames (map (\<lambda>wr. WantedObjectID wr @ '' '' @ WantedName wr @ ''\<newline>'') xs)"
    for b' xs
    by (rule foldl_frames) (simp add: WantedRef_Append_def AppendLength_render)
  then show ?thesis
    by (simp add: WantedRefs_Append_def WantedRefs_lines_def AppendString_render)
qed

lemma PackfileURIs_Append_frames:
  "PackfileURIs_Append pus b = b @ frames (PackfileURIs_lines pus)"
proof -
  have "foldl (\<lambda>b pu. PackfileURI_Append pu b) b' xs
        = b' @ frames (map (\<lambda>pu. Checksum pu @ '' '' @ URI pu @ ''\<newline>'') xs)"
    for b' xs
    by (rule foldl_frames) (simp add: PackfileURI_Append_def AppendLength_render)
  then show ?thesis
    by (simp add: PackfileURIs_Append_def PackfileURIs_lines_def AppendString_render)
qed

lemma pkt_units_Nil: "pkt_units [] = [Inl EOF]"
  by (subst pkt_units.simps) (simp add: Scan_Nil)

lemma pkt_units_frame: "fits l \<Longrightarrow> pkt_units (render (Inr l) @ rest) = Inr l # pkt_units rest"
  by (subst pkt_units.simps) (simp add: Scan_frame render.simps)

lemma pkt_units_delim: "pkt_units (render (Inl ErrDelimPkt) @ rest) = Inl ErrDelimPkt # pkt_units rest"
  by (subst pkt_units.simps) (simp add: AppendDelimPkt_def Scan_delim [simplified] render.simps)

lemma pkt_units_frames:
  "\<forall>l \<in> set ls. fits l \<Longrightarrow> pkt_units (frames ls @ rest) = map Inr ls @ pkt_units rest"
  by (induction ls) (simp_all add: pkt_units_frame)


lemma render_frames:
  "concat (map render (map Inr ls)) = frames ls"
  "concat (map (render \<circ> Inr) ls) = frames ls"
  by (simp_all add: frames_def comp_def)

lemma pkt_units_render:
  assumes "\<forall>u \<in> set us. (\<exists>l. u = Inr l \<and> fits l) \<or> u = Inl ErrDelimPkt"
  shows "pkt_units (concat (map render us) @ rest) = us @ pkt_units rest"
  using assms
proof (induction us)
  case Nil
  then show ?case by simp
next
  case (Cons u us)
  then have IH: "pkt_units (concat (map render us) @ rest) = us @ pkt_units rest"
    by simp
  from Cons.prems have "(\<exists>l. u = Inr l \<and> fits l) \<or> u = Inl ErrDelimPkt"
    by simp
  then show ?case
  proof
    assume "\<exists>l. u = Inr l \<and> fits l"
    then obtain l where "u = Inr l" "fits l" by blast
    with IH show ?thesis by (simp add: pkt_units_frame)
  next
    assume "u = Inl ErrDelimPkt"
    with IH show ?thesis by (simp add: pkt_units_delim)
  qed
qed

lemma packfile_header: "render (Inr ''packfile\<newline>'') = ''000dpackfile\<newline>''"
  by code_simp

section \<open>Decoding what was encoded\<close>

subsection \<open>Single lines\<close>

lemma Capability_Append_frame: "Capability_Append c b = b @ render (Inr (Capability_line c))"
  by (simp add: Capability_Append_def Capability_line_def AppendLength_render)

lemma Capability_Parse_line:
  assumes "Capability_valid c"
  shows "Capability_Parse Capability_zero (Capability_line c) = (None, c)"
proof (cases "CapValue c = []")
  case True
  have "Capability_line c = CapKey c @ ''\<newline>''"
    using True by (simp add: Capability_line_def)
  moreover have "Cut (CapKey c) ''='' = (CapKey c, [], False)"
    using assms by (simp add: Capability_valid_def Cut_absent)
  ultimately show ?thesis
    using assms True
    by (simp add: Capability_Parse_def Capability_valid_def Capability_zero_def)
next
  case False
  have "Capability_line c = (CapKey c @ CHR ''='' # CapValue c) @ ''\<newline>''"
    using False by (simp add: Capability_line_def)
  moreover have "Cut (CapKey c @ CHR ''='' # CapValue c) ''='' = (CapKey c, CapValue c, True)"
    using assms by (simp add: Capability_valid_def Cut_first)
  ultimately show ?thesis
    using assms False
    by (simp only: Capability_Parse_def CutSuffix_append option.case prod.case)
       (simp add: Capability_valid_def Capability_zero_def)
qed

lemma CommandArgument_Append_frame:
  "CommandArgument_Append ca b = b @ render (Inr (CommandArgument_line ca))"
  by (simp add: CommandArgument_Append_def CommandArgument_line_def AppendString_render)

lemma CommandArgument_Parse_line:
  assumes "CommandArgument_valid ca"
  shows "CommandArgument_Parse CommandArgument_zero (CommandArgument_line ca) = (None, ca)"
proof (cases "ArgValue ca = []")
  case True
  have "CommandArgument_line ca = ArgKey ca"
    using True by (simp add: CommandArgument_line_def)
  moreover have "Cut (ArgKey ca) '' '' = (ArgKey ca, [], False)"
    using assms by (simp add: CommandArgument_valid_def Cut_absent)
  ultimately show ?thesis
    using assms True
    by (simp add: CommandArgument_Parse_def CommandArgument_valid_def CommandArgument_zero_def)
next
  case False
  have "CommandArgument_line ca = ArgKey ca @ CHR '' '' # ArgValue ca"
    using False by (simp add: CommandArgument_line_def)
  moreover have "Cut (ArgKey ca @ CHR '' '' # ArgValue ca) '' '' = (ArgKey ca, ArgValue ca, True)"
    using assms by (simp add: CommandArgument_valid_def Cut_first)
  ultimately show ?thesis
    using assms False
    by (simp only: CommandArgument_Parse_def prod.case)
       (simp add: CommandArgument_valid_def CommandArgument_zero_def)
qed

lemma foldl_attr_size:
  "foldl (\<lambda>sz attr. Suc (sz + length attr)) n attrs
   = n + length (concat (map ((#) CHR '' '') attrs))"
  by (induction attrs arbitrary: n) simp_all

lemma foldl_attr_bytes:
  "foldl (\<lambda>b attr. b @ CHR '' '' # attr) b attrs = b @ concat (map ((#) CHR '' '') attrs)"
  by (induction attrs arbitrary: b) simp_all

lemma Reference_Append_frame: "Reference_Append r b = b @ render (Inr (Reference_line r))"
  by (simp add: Reference_Append_def Reference_line_def Let_def foldl_attr_size
        foldl_attr_bytes AppendLength_def AppendString_def render.simps)

lemma Reference_Parse_valid:
  assumes "Reference_valid r"
  shows "Reference_Parse Reference_zero (Reference_line r) = (None, r)"
  using assms
    Reference_Parse_line [of "RefObjectID r" "RefName r" "Attributes r" Reference_zero]
  by (simp add: Reference_valid_def Reference_line_def Reference_zero_def)


subsection \<open>Lists\<close>

lemma Capabilities_Append_frames:
  "Capabilities_Append cs b = b @ frames (map Capability_line cs)"
  unfolding Capabilities_Append_def
  by (rule foldl_frames) (rule Capability_Append_frame)

lemma Capabilities_Parse_stop:
  "Scan sc = (Inl e, sc') \<Longrightarrow> Capabilities_Parse cs sc = (Some e, cs, sc')"
  by (subst Capabilities_Parse.simps) simp

lemma Capabilities_Parse_frames:
  assumes "\<forall>c \<in> set cs. Capability_valid c"
  shows "Capabilities_Parse acc (frames (map Capability_line cs) @ rest)
         = Capabilities_Parse (acc @ cs) rest"
  using assms
proof (induction cs arbitrary: acc)
  case Nil
  then show ?case by simp
next
  case (Cons c cs)
  then have v: "Capability_valid c" and vs: "\<forall>c \<in> set cs. Capability_valid c"
    by auto
  have "fits (Capability_line c)"
    using v by (simp add: Capability_valid_def)
  then have scan: "Scan (render (Inr (Capability_line c)) @ frames (map Capability_line cs) @ rest)
                   = (Inr (Capability_line c), frames (map Capability_line cs) @ rest)"
    unfolding render.simps by (rule Scan_frame)
  have "Capabilities_Parse acc (frames (map Capability_line (c # cs)) @ rest)
        = Capabilities_Parse (acc @ [c]) (frames (map Capability_line cs) @ rest)"
    using Capability_Parse_line [OF v]
    by (subst Capabilities_Parse.simps) (simp add: scan Capability_zero_def)
  also have "\<dots> = Capabilities_Parse ((acc @ [c]) @ cs) rest"
    by (rule Cons.IH [OF vs])
  finally show ?case by simp
qed

lemma CommandArguments_Append_frames:
  "foldl (\<lambda>b a. CommandArgument_Append a b) b cas = b @ frames (map CommandArgument_line cas)"
  by (rule foldl_frames) (rule CommandArgument_Append_frame)

lemma CommandArguments_Parse_stop:
  "Scan sc = (Inl e, sc') \<Longrightarrow> CommandArguments_Parse cas sc = (Some e, cas, sc')"
  by (subst CommandArguments_Parse.simps) simp

lemma CommandArguments_Parse_frames:
  assumes "\<forall>a \<in> set cas. CommandArgument_valid a"
  shows "CommandArguments_Parse acc (frames (map CommandArgument_line cas) @ rest)
         = CommandArguments_Parse (acc @ cas) rest"
  using assms
proof (induction cas arbitrary: acc)
  case Nil
  then show ?case by simp
next
  case (Cons a cas)
  then have v: "CommandArgument_valid a" and vs: "\<forall>a \<in> set cas. CommandArgument_valid a"
    by auto
  have "fits (CommandArgument_line a)"
    using v by (simp add: CommandArgument_valid_def)
  then have scan:
    "Scan (render (Inr (CommandArgument_line a)) @ frames (map CommandArgument_line cas) @ rest)
     = (Inr (CommandArgument_line a), frames (map CommandArgument_line cas) @ rest)"
    unfolding render.simps by (rule Scan_frame)
  have "CommandArguments_Parse acc (frames (map CommandArgument_line (a # cas)) @ rest)
        = CommandArguments_Parse (acc @ [a]) (frames (map CommandArgument_line cas) @ rest)"
    using CommandArgument_Parse_line [OF v]
    by (subst CommandArguments_Parse.simps) (simp add: scan CommandArgument_zero_def)
  also have "\<dots> = CommandArguments_Parse ((acc @ [a]) @ cas) rest"
    by (rule Cons.IH [OF vs])
  finally show ?case by simp
qed

subsection \<open>Messages\<close>

lemma CapabilityAdvertisement_roundtrip:
  assumes "CapabilityAdvertisement_valid ca"
  shows "CapabilityAdvertisement_Parse CapabilityAdvertisement_zero
           (CapabilityAdvertisement_Append ca []) = (None, ca, [])"
proof -
  let ?body = "frames (map Capability_line (Capabilities ca)) @ ''0000''"
  have out: "CapabilityAdvertisement_Append ca [] = render (Inr ''version 2\<newline>'') @ ?body"
    by (simp add: CapabilityAdvertisement_Append_def Capabilities_Append_frames
          AppendFlushPkt_def AppendString_render)
  have "fits ''version 2\<newline>''" by (simp add: fits_def)
  then have scan: "Scan (render (Inr ''version 2\<newline>'') @ ?body) = (Inr ''version 2\<newline>'', ?body)"
    unfolding render.simps by (rule Scan_frame)
  have "Capabilities_Parse [] ?body = Capabilities_Parse ([] @ Capabilities ca) ''0000''"
    using assms by (intro Capabilities_Parse_frames) (simp add: CapabilityAdvertisement_valid_def)
  also have "\<dots> = (Some ErrFlushPkt, Capabilities ca, [])"
    using Scan_flush [of "[]"] by (simp add: Capabilities_Parse_stop)
  finally have caps: "Capabilities_Parse [] ?body = (Some ErrFlushPkt, Capabilities ca, [])" .
  show ?thesis
    unfolding out
    using caps
    by (simp add: CapabilityAdvertisement_Parse_def scan CapabilityAdvertisement_zero_def)
qed

lemma CommandRequest_roundtrip:
  assumes "CommandRequest_valid cr"
  shows "CommandRequest_Parse CommandRequest_zero (CommandRequest_Append cr []) = (None, cr, [])"
proof -
  let ?line = "''command='' @ Command cr @ ''\<newline>''"
  let ?args = "frames (map CommandArgument_line (Arguments cr)) @ ''0000''"
  let ?body = "frames (map Capability_line (ReqCapabilities cr)) @ ''0001'' @ ?args"
  have out: "CommandRequest_Append cr [] = render (Inr ?line) @ ?body"
    by (simp add: CommandRequest_Append_def Capabilities_Append_frames
          CommandArguments_Append_frames AppendFlushPkt_def AppendDelimPkt_def
          AppendString_render)
  have "fits ?line" using assms by (simp add: CommandRequest_valid_def)
  then have scan: "Scan (render (Inr ?line) @ ?body) = (Inr ?line, ?body)"
    unfolding render.simps by (rule Scan_frame)
  have "?line = (''command='' @ Command cr) @ ''\<newline>''" by simp
  then have suf: "CutSuffix ?line ''\<newline>'' = Some (''command='' @ Command cr)"
    by (simp only: CutSuffix_append)
  have pre: "CutPrefix (''command='' @ Command cr) ''command='' = Some (Command cr)"
    by (simp add: CutPrefix_def)
  have "Capabilities_Parse [] ?body
        = Capabilities_Parse ([] @ ReqCapabilities cr) (''0001'' @ ?args)"
    using assms by (intro Capabilities_Parse_frames) (simp add: CommandRequest_valid_def)
  also have "\<dots> = (Some ErrDelimPkt, ReqCapabilities cr, ?args)"
    using Scan_delim [of ?args] by (simp add: Capabilities_Parse_stop)
  finally have caps: "Capabilities_Parse [] ?body = (Some ErrDelimPkt, ReqCapabilities cr, ?args)" .
  have "CommandArguments_Parse [] ?args = CommandArguments_Parse ([] @ Arguments cr) ''0000''"
    using assms by (intro CommandArguments_Parse_frames) (simp add: CommandRequest_valid_def)
  also have "\<dots> = (Some ErrFlushPkt, Arguments cr, [])"
    using Scan_flush [of "[]"] by (simp add: CommandArguments_Parse_stop)
  finally have args: "CommandArguments_Parse [] ?args = (Some ErrFlushPkt, Arguments cr, [])" .
  show ?thesis
    unfolding out
    using caps args
    by (simp only: CommandRequest_Parse_def scan suf pre prod.case sum.case option.case)
       (simp add: CommandRequest_zero_def)
qed

section \<open>The claims\<close>

subsection \<open>C1: the terminator after the acknowledgements section\<close>

text \<open>
  C1 says that \<open>FetchResponse.Parse\<close> returns success when the acknowledgements section
  is followed by a flush marker, and goes on into the next section when it is followed
  by a delimiter. The code does neither: \<open>Acknowledgements.Parse\<close> returns the sentinel
  it met as its error, and \<^verbatim>\<open>if err != nil { return err }\<close> passes it on. On the
  response \<^verbatim>\<open>acknowledgments, NAK, flush\<close> the call returns \<open>ErrFlushPkt\<close>; on
  \<^verbatim>\<open>acknowledgments, ACK abc, delimiter, packfile, flush\<close> it returns \<open>ErrDelimPkt\<close>
  and leaves the packfile section unread.
\<close>

theorem FetchResponse_Parse_acknowledgments_sentinel:
  "observed (FetchResponse_Parse FetchResponse_zero
       ''0014acknowledgments\<newline>0008NAK\<newline>0000''
       (None :: unit Writer option) (None :: unit Writer option))
   = (Some ErrFlushPkt,
      FetchResponse_zero\<lparr>Acknowledgements := Acknowledgements_zero\<lparr>NAK := True\<rparr>\<rparr>,
      [], None, None)
   \<and> observed (FetchResponse_Parse FetchResponse_zero
       ''0014acknowledgments\<newline>000cACK abc\<newline>0001000dpackfile\<newline>0000''
       (None :: unit Writer option) (None :: unit Writer option))
     = (Some ErrDelimPkt,
        FetchResponse_zero\<lparr>Acknowledgements := Acknowledgements_zero\<lparr>ACKs := Some [''abc'']\<rparr>\<rparr>,
        ''000dpackfile\<newline>0000'', None, None)"
  by code_simp

subsection \<open>C2: the encoder's early exit on NAK\<close>

text \<open>
  C2: for every fetch response whose acknowledgements have \<open>NAK\<close> set, \<open>Append\<close> emits
  the acknowledgements section, then the flush marker, and nothing else: the output does
  not depend on the shallow-info, wanted-refs and packfile-uris fields.
\<close>

theorem FetchResponse_Append_NAK:
  assumes "NAK (Acknowledgements fr)"
  shows "FetchResponse_Append fr b
           = AppendFlushPkt (Acknowledgements_Append (Acknowledgements fr) b)
         \<and> FetchResponse_Append (fr\<lparr>ShallowInfo := si, WantedRefs := wrs, PackfileURIs := pus\<rparr>) b
           = FetchResponse_Append fr b"
  using assms by (simp add: FetchResponse_Append_def Acknowledgements_IsZero_def Let_def)

theorem FetchResponse_Append_NAK_witness:
  "NAK (Acknowledgements
         (FetchResponse_zero\<lparr>Acknowledgements := Acknowledgements_zero\<lparr>NAK := True\<rparr>,
            WantedRefs := Some [\<lparr>WantedObjectID = ''b'', WantedName = ''c''\<rparr>]\<rparr>))
   \<and> FetchResponse_Append
        (FetchResponse_zero\<lparr>Acknowledgements := Acknowledgements_zero\<lparr>NAK := True\<rparr>,
            WantedRefs := Some [\<lparr>WantedObjectID = ''b'', WantedName = ''c''\<rparr>]\<rparr>) []
     = ''0014acknowledgments\<newline>0008NAK\<newline>0000''"
  using FetchResponse_Append_NAK
    [of "FetchResponse_zero\<lparr>Acknowledgements := Acknowledgements_zero\<lparr>NAK := True\<rparr>,
            WantedRefs := Some [\<lparr>WantedObjectID = ''b'', WantedName = ''c''\<rparr>]\<rparr>" "[]"]
  by (simp add: FetchResponse_zero_def Acknowledgements_zero_def) code_simp

subsection \<open>C3: the fatal channel of the packfile section\<close>

text \<open>
  C3 says that a channel-3 unit whose payload is \<^verbatim>\<open>fatal: xyz\<close> gives an error that
  carries exactly \<^verbatim>\<open>xyz\<close>. The code strips nothing: the error is
  \<^verbatim>\<open>fmt.Errorf("fatal: %s", data)\<close> with the whole payload, here \<^verbatim>\<open>fatal: xyz\<close>, and
  its text is \<^verbatim>\<open>fatal: fatal: xyz\<close>.
\<close>

theorem FetchResponse_Parse_fatal_counterexample:
  "observed (FetchResponse_Parse FetchResponse_zero
      (''000dpackfile\<newline>000f'' @ [CHR 0x03] @ ''fatal: xyz'')
      (Some (Buffer [])) (Some (Buffer [])))
   = (Some (Errorf ''fatal: %s'' ''fatal: xyz''), FetchResponse_zero, [], Some [], Some [])
   \<and> Error_s ''fatal: %s'' ''fatal: xyz'' = ''fatal: fatal: xyz''
   \<and> ''fatal: xyz'' \<noteq> ''xyz'' \<and> ''fatal: fatal: xyz'' \<noteq> ''xyz''"
  by code_simp

text \<open>
  C3, amended: for every unit of the packfile section whose first byte is 3,
  \<open>FetchResponse.Parse\<close> stops at once, leaves both writers as they were before the
  unit, reads nothing after it, and returns the error \<^verbatim>\<open>fmt.Errorf("fatal: %s", data)\<close>
  where \<open>data\<close> is all of the unit after its first byte; the text of that error is
  \<^verbatim>\<open>fatal: \<close> followed by \<open>data\<close>. The first part is the step of the inner loop, for any
  two writers in any state; the second is the whole call on a response whose packfile
  section holds any units of channels 1 and 2 before the fatal one, with two buffers as
  writers: they end up holding the payloads of those earlier units and nothing else.
\<close>

theorem FetchResponse_Parse_fatal:
  "(Scan sc = (Inr (CHR 0x03 # data), sc') \<longrightarrow>
      FetchResponse_Parse_packfile sc packfile progress
        = (Some (Errorf ''fatal: %s'' data), sc', packfile, progress))
   \<and> ((\<forall>u \<in> set units. fits u \<and> (\<exists>d. u = CHR 0x01 # d \<or> u = CHR 0x02 # d))
        \<and> fits (CHR 0x03 # data) \<longrightarrow>
      FetchResponse_Parse fr
         (AppendString [] ''packfile\<newline>'' @ concat (map (AppendString []) units)
            @ AppendString [] (CHR 0x03 # data) @ rest)
         (Some (Buffer p)) (Some (Buffer g))
        = (Some (Errorf ''fatal: %s'' data), fr, rest,
           Some (Buffer (p @ concat (map tl (filter (\<lambda>u. hd u = CHR 0x01) units)))),
           Some (Buffer (g @ concat (map tl (filter (\<lambda>u. hd u = CHR 0x02) units))))))
   \<and> Error_s ''fatal: %s'' data = ''fatal: '' @ data"
proof (intro conjI impI)
  assume "Scan sc = (Inr (CHR 0x03 # data), sc')"
  then show "FetchResponse_Parse_packfile sc packfile progress
        = (Some (Errorf ''fatal: %s'' data), sc', packfile, progress)"
    by (rule FetchResponse_Parse_packfile_fatal)
next
  assume a: "(\<forall>u \<in> set units. fits u \<and> (\<exists>d. u = CHR 0x01 # d \<or> u = CHR 0x02 # d))
        \<and> fits (CHR 0x03 # data)"
  let ?tail = "concat (map (AppendString []) units) @ AppendString [] (CHR 0x03 # data) @ rest"
  have "fits ''packfile\<newline>''" by (simp add: fits_def)
  then have s0: "Scan (AppendString [] ''packfile\<newline>'' @ ?tail) = (Inr ''packfile\<newline>'', ?tail)"
    by (rule Scan_frame)
  have s1: "Scan (AppendString [] (CHR 0x03 # data) @ rest) = (Inr (CHR 0x03 # data), rest)"
    using a by (intro Scan_frame) simp
  have "FetchResponse_Parse_packfile ?tail (Some (Buffer p)) (Some (Buffer g))
        = (Some (Errorf ''fatal: %s'' data), rest,
           Some (Buffer (p @ concat (map tl (filter (\<lambda>u. hd u = CHR 0x01) units)))),
           Some (Buffer (g @ concat (map tl (filter (\<lambda>u. hd u = CHR 0x02) units)))))"
    using a FetchResponse_Parse_packfile_units [of units "AppendString [] (CHR 0x03 # data) @ rest" p g]
      FetchResponse_Parse_packfile_fatal [OF s1]
    by simp
  then show "FetchResponse_Parse fr
         (AppendString [] ''packfile\<newline>'' @ concat (map (AppendString []) units)
            @ AppendString [] (CHR 0x03 # data) @ rest)
         (Some (Buffer p)) (Some (Buffer g))
        = (Some (Errorf ''fatal: %s'' data), fr, rest,
           Some (Buffer (p @ concat (map tl (filter (\<lambda>u. hd u = CHR 0x01) units)))),
           Some (Buffer (g @ concat (map tl (filter (\<lambda>u. hd u = CHR 0x02) units)))))"
    by (simp add: FetchResponse_Parse_enters_packfile [OF s0])
next
  show "Error_s ''fatal: %s'' data = ''fatal: '' @ data"
    by (simp add: Error_s_def)
qed

theorem FetchResponse_Parse_fatal_witness:
  "Scan (''0008'' @ [CHR 0x03] @ ''xyz'' @ ''0000'') = (Inr (CHR 0x03 # ''xyz''), ''0000'')
   \<and> FetchResponse_Parse_packfile (''0008'' @ [CHR 0x03] @ ''xyz'' @ ''0000'')
        (Some (Buffer ''abc'')) (None :: unit Writer option)
       = (Some (Errorf ''fatal: %s'' ''xyz''), ''0000'', Some (Buffer ''abc''), None)
   \<and> FetchResponse_Parse FetchResponse_zero
        (''000dpackfile\<newline>'' @ ''0008'' @ [CHR 0x01] @ ''abc'' @ ''0007'' @ [CHR 0x02] @ ''hi''
           @ ''0008'' @ [CHR 0x03] @ ''xyz'' @ ''0000'')
        (Some (Buffer [])) (Some (Buffer []))
       = (Some (Errorf ''fatal: %s'' ''xyz''), FetchResponse_zero, ''0000'',
          Some (Buffer ''abc''), Some (Buffer ''hi''))
   \<and> Error_s ''fatal: %s'' ''xyz'' = ''fatal: xyz''"
proof -
  have s: "Scan (''0008'' @ [CHR 0x03] @ ''xyz'' @ ''0000'') = (Inr (CHR 0x03 # ''xyz''), ''0000'')"
    by code_simp
  have f: "(\<forall>u \<in> set [CHR 0x01 # ''abc'', CHR 0x02 # ''hi'']. fits u \<and> (\<exists>d. u = CHR 0x01 # d \<or> u = CHR 0x02 # d))
       \<and> fits (CHR 0x03 # ''xyz'')"
    by (simp add: fits_def)
  have e: "AppendString [] ''packfile\<newline>''
             @ concat (map (AppendString []) [CHR 0x01 # ''abc'', CHR 0x02 # ''hi''])
             @ AppendString [] (CHR 0x03 # ''xyz'') @ ''0000''
           = ''000dpackfile\<newline>'' @ ''0008'' @ [CHR 0x01] @ ''abc'' @ ''0007'' @ [CHR 0x02] @ ''hi''
              @ ''0008'' @ [CHR 0x03] @ ''xyz'' @ ''0000''"
    by code_simp
  note t = FetchResponse_Parse_fatal
     [of "''0008'' @ [CHR 0x03] @ ''xyz'' @ ''0000''" "''xyz''" "''0000''"
         "Some (Buffer ''abc'')" "None :: unit Writer option"
         "[CHR 0x01 # ''abc'', CHR 0x02 # ''hi'']" FetchResponse_zero "''0000''" "[]" "[]"]
  from t [unfolded e] s f show ?thesis
    by simp
qed

subsection \<open>C4: decoding what was encoded\<close>

text \<open>
  C4 says that decoding the bytes produced by encoding a value gives the value back,
  for every entity type, the fetch response with any of its sections included. For the
  fetch response this fails. The response below has a shallow-info section and a
  wanted-refs section; \<open>Append\<close> writes the two sections one after the other and ends
  with the header line \<^verbatim>\<open>packfile\<close>, and \<open>Parse\<close> on those bytes returns an error, with
  the wanted refs missing from the value: \<open>ShallowInfo.Parse\<close> reads on to the header
  of the next section and rejects it.
\<close>

theorem FetchResponse_roundtrip_counterexample:
  "FetchResponse_Append
     \<lparr>Acknowledgements = Acknowledgements_zero,
      ShallowInfo = \<lparr>Shallow = Some [\<lparr>ShallowObjectID = ''a''\<rparr>], Unshallow = None\<rparr>,
      WantedRefs = Some [\<lparr>WantedObjectID = ''b'', WantedName = ''c''\<rparr>],
      PackfileURIs = None\<rparr> []
   = ''0011shallow-info\<newline>000eshallow a\<newline>0010wanted-refs\<newline>0008b c\<newline>000dpackfile\<newline>''
   \<and> observed (FetchResponse_Parse FetchResponse_zero
        ''0011shallow-info\<newline>000eshallow a\<newline>0010wanted-refs\<newline>0008b c\<newline>000dpackfile\<newline>''
        (None :: unit Writer option) (None :: unit Writer option))
     = (Some (Errorf ''invalid shallow-info: %q'' ''wanted-refs\<newline>''),
        \<lparr>Acknowledgements = Acknowledgements_zero,
         ShallowInfo = \<lparr>Shallow = Some [\<lparr>ShallowObjectID = ''a''\<rparr>], Unshallow = None\<rparr>,
         WantedRefs = None, PackfileURIs = None\<rparr>,
        ''0008b c\<newline>000dpackfile\<newline>'', None, None)"
  by code_simp

text \<open>
  C4, amended: decoding the encoding gives the value back for every valid capability,
  argument, reference, capability advertisement and command request, and for every
  list of valid capabilities or of valid arguments; the list decoder returns the list
  together with what ended it, which is the end of the input, or the flush or
  delimiter marker that follows the list. A capability or argument is valid when its
  key is not empty and holds no separator, a reference when its object id, name and
  attributes hold no space, and in each case the line must fit one framed unit.
  Nothing is said of fetch responses.
\<close>

theorem roundtrip:
  "(Capability_valid c \<longrightarrow>
      (case Scan (Capability_Append c []) of
         (Inr line, rest) \<Rightarrow> rest = [] \<and> Capability_Parse Capability_zero line = (None, c)
       | (Inl err, rest) \<Rightarrow> False))
   \<and> (CommandArgument_valid a \<longrightarrow>
      (case Scan (CommandArgument_Append a []) of
         (Inr line, rest) \<Rightarrow>
           rest = [] \<and> CommandArgument_Parse CommandArgument_zero line = (None, a)
       | (Inl err, rest) \<Rightarrow> False))
   \<and> ((\<forall>c \<in> set cs. Capability_valid c) \<longrightarrow>
      Capabilities_Parse [] (Capabilities_Append cs []) = (Some EOF, cs, [])
      \<and> Capabilities_Parse [] (AppendFlushPkt (Capabilities_Append cs []))
        = (Some ErrFlushPkt, cs, [])
      \<and> Capabilities_Parse [] (AppendDelimPkt (Capabilities_Append cs []))
        = (Some ErrDelimPkt, cs, []))
   \<and> ((\<forall>a \<in> set cas. CommandArgument_valid a) \<longrightarrow>
      CommandArguments_Parse [] (CommandArguments_Append cas []) = (Some EOF, cas, [])
      \<and> CommandArguments_Parse [] (AppendFlushPkt (CommandArguments_Append cas []))
        = (Some ErrFlushPkt, cas, [])
      \<and> CommandArguments_Parse [] (AppendDelimPkt (CommandArguments_Append cas []))
        = (Some ErrDelimPkt, cas, []))
   \<and> (Reference_valid r \<longrightarrow>
      (case Scan (Reference_Append r []) of
         (Inr line, rest) \<Rightarrow> rest = [] \<and> Reference_Parse Reference_zero line = (None, r)
       | (Inl err, rest) \<Rightarrow> False))
   \<and> (CapabilityAdvertisement_valid ca \<longrightarrow>
      CapabilityAdvertisement_Parse CapabilityAdvertisement_zero
        (CapabilityAdvertisement_Append ca []) = (None, ca, []))
   \<and> (CommandRequest_valid cr \<longrightarrow>
      CommandRequest_Parse CommandRequest_zero (CommandRequest_Append cr []) = (None, cr, []))"
proof (intro conjI impI)
  assume v: "Capability_valid c"
  then have "Scan (render (Inr (Capability_line c)) @ []) = (Inr (Capability_line c), [])"
    unfolding render.simps by (intro Scan_frame) (simp add: Capability_valid_def)
  with Capability_Parse_line [OF v]
  show "case Scan (Capability_Append c []) of
         (Inr line, rest) \<Rightarrow> rest = [] \<and> Capability_Parse Capability_zero line = (None, c)
       | (Inl err, rest) \<Rightarrow> False"
    by (simp add: Capability_Append_frame)
next
  assume v: "CommandArgument_valid a"
  then have "Scan (render (Inr (CommandArgument_line a)) @ []) = (Inr (CommandArgument_line a), [])"
    unfolding render.simps by (intro Scan_frame) (simp add: CommandArgument_valid_def)
  with CommandArgument_Parse_line [OF v]
  show "case Scan (CommandArgument_Append a []) of
         (Inr line, rest) \<Rightarrow>
           rest = [] \<and> CommandArgument_Parse CommandArgument_zero line = (None, a)
       | (Inl err, rest) \<Rightarrow> False"
    by (simp add: CommandArgument_Append_frame)
next
  assume v: "\<forall>c \<in> set cs. Capability_valid c"
  show "Capabilities_Parse [] (Capabilities_Append cs []) = (Some EOF, cs, [])"
    using Capabilities_Parse_frames [OF v, of "[]" "[]"] Scan_Nil
    by (simp add: Capabilities_Append_frames Capabilities_Parse_stop)
  show "Capabilities_Parse [] (AppendFlushPkt (Capabilities_Append cs []))
        = (Some ErrFlushPkt, cs, [])"
    using Capabilities_Parse_frames [OF v, of "[]" "''0000''"] Scan_flush [of "[]"]
    by (simp add: AppendFlushPkt_def Capabilities_Append_frames Capabilities_Parse_stop)
  show "Capabilities_Parse [] (AppendDelimPkt (Capabilities_Append cs []))
        = (Some ErrDelimPkt, cs, [])"
    using Capabilities_Parse_frames [OF v, of "[]" "''0001''"] Scan_delim [of "[]"]
    by (simp add: AppendDelimPkt_def Capabilities_Append_frames Capabilities_Parse_stop)
next
  assume v: "\<forall>a \<in> set cas. CommandArgument_valid a"
  show "CommandArguments_Parse [] (CommandArguments_Append cas []) = (Some EOF, cas, [])"
    using CommandArguments_Parse_frames [OF v, of "[]" "[]"] Scan_Nil
    by (simp add: CommandArguments_Append_def CommandArguments_Append_frames
          CommandArguments_Parse_stop)
  show "CommandArguments_Parse [] (AppendFlushPkt (CommandArguments_Append cas []))
        = (Some ErrFlushPkt, cas, [])"
    using CommandArguments_Parse_frames [OF v, of "[]" "''0000''"] Scan_flush [of "[]"]
    by (simp add: AppendFlushPkt_def CommandArguments_Append_def CommandArguments_Append_frames
          CommandArguments_Parse_stop)
  show "CommandArguments_Parse [] (AppendDelimPkt (CommandArguments_Append cas []))
        = (Some ErrDelimPkt, cas, [])"
    using CommandArguments_Parse_frames [OF v, of "[]" "''0001''"] Scan_delim [of "[]"]
    by (simp add: AppendDelimPkt_def CommandArguments_Append_def CommandArguments_Append_frames
          CommandArguments_Parse_stop)
next
  assume v: "Reference_valid r"
  then have "Scan (render (Inr (Reference_line r)) @ []) = (Inr (Reference_line r), [])"
    unfolding render.simps by (intro Scan_frame) (simp add: Reference_valid_def)
  with Reference_Parse_valid [OF v]
  show "case Scan (Reference_Append r []) of
         (Inr line, rest) \<Rightarrow> rest = [] \<and> Reference_Parse Reference_zero line = (None, r)
       | (Inl err, rest) \<Rightarrow> False"
    by (simp add: Reference_Append_frame)
next
  assume "CapabilityAdvertisement_valid ca"
  then show "CapabilityAdvertisement_Parse CapabilityAdvertisement_zero
        (CapabilityAdvertisement_Append ca []) = (None, ca, [])"
    by (rule CapabilityAdvertisement_roundtrip)
next
  assume "CommandRequest_valid cr"
  then show "CommandRequest_Parse CommandRequest_zero (CommandRequest_Append cr []) = (None, cr, [])"
    by (rule CommandRequest_roundtrip)
qed


theorem roundtrip_witness:
  "Scan (Capability_Append \<lparr>CapKey = ''agent'', CapValue = ''git/1.0''\<rparr> [])
     = (Inr ''agent=git/1.0\<newline>'', [])
   \<and> Capability_Parse Capability_zero ''agent=git/1.0\<newline>''
       = (None, \<lparr>CapKey = ''agent'', CapValue = ''git/1.0''\<rparr>)
   \<and> Scan (CommandArgument_Append \<lparr>ArgKey = ''want'', ArgValue = ''abc''\<rparr> [])
       = (Inr ''want abc'', [])
   \<and> CommandArgument_Parse CommandArgument_zero ''want abc''
       = (None, \<lparr>ArgKey = ''want'', ArgValue = ''abc''\<rparr>)
   \<and> Capabilities_Parse []
        (AppendFlushPkt (Capabilities_Append [\<lparr>CapKey = ''ls-refs'', CapValue = []\<rparr>] []))
       = (Some ErrFlushPkt, [\<lparr>CapKey = ''ls-refs'', CapValue = []\<rparr>], [])
   \<and> CommandArguments_Parse []
        (AppendDelimPkt (CommandArguments_Append [\<lparr>ArgKey = ''done'', ArgValue = []\<rparr>] []))
       = (Some ErrDelimPkt, [\<lparr>ArgKey = ''done'', ArgValue = []\<rparr>], [])
   \<and> Scan (Reference_Append
              \<lparr>RefObjectID = ''abc'', RefName = ''HEAD'', Attributes = [''peeled:def'']\<rparr> [])
       = (Inr ''abc HEAD peeled:def\<newline>'', [])
   \<and> Reference_Parse Reference_zero ''abc HEAD peeled:def\<newline>''
       = (None, \<lparr>RefObjectID = ''abc'', RefName = ''HEAD'', Attributes = [''peeled:def'']\<rparr>)
   \<and> CapabilityAdvertisement_Parse CapabilityAdvertisement_zero
        (CapabilityAdvertisement_Append
           \<lparr>Capabilities = [\<lparr>CapKey = ''agent'', CapValue = ''git/1.0''\<rparr>]\<rparr> [])
       = (None, \<lparr>Capabilities = [\<lparr>CapKey = ''agent'', CapValue = ''git/1.0''\<rparr>]\<rparr>, [])
   \<and> CommandRequest_Parse CommandRequest_zero
        (CommandRequest_Append
           \<lparr>Command = ''fetch'',
            ReqCapabilities = [\<lparr>CapKey = ''agent'', CapValue = ''git/1.0''\<rparr>],
            Arguments = [\<lparr>ArgKey = ''want'', ArgValue = ''abc''\<rparr>,
                         \<lparr>ArgKey = ''done'', ArgValue = []\<rparr>]\<rparr> [])
       = (None,
          \<lparr>Command = ''fetch'',
           ReqCapabilities = [\<lparr>CapKey = ''agent'', CapValue = ''git/1.0''\<rparr>],
           Arguments = [\<lparr>ArgKey = ''want'', ArgValue = ''abc''\<rparr>,
                        \<lparr>ArgKey = ''done'', ArgValue = []\<rparr>]\<rparr>,
          [])
   \<and> CommandRequest_Append
        \<lparr>Command = ''fetch'',
         ReqCapabilities = [\<lparr>CapKey = ''agent'', CapValue = ''git/1.0''\<rparr>],
         Arguments = [\<lparr>ArgKey = ''want'', ArgValue = ''abc''\<rparr>,
                      \<lparr>ArgKey = ''done'', ArgValue = []\<rparr>]\<rparr> []
       = ''0012command=fetch\<newline>0012agent=git/1.0\<newline>0001000cwant abc0008done0000''"
proof -
  let ?c = "\<lparr>CapKey = ''agent'', CapValue = ''git/1.0''\<rparr>"
  let ?a = "\<lparr>ArgKey = ''want'', ArgValue = ''abc''\<rparr>"
  let ?cs = "[\<lparr>CapKey = ''ls-refs'', CapValue = []\<rparr>]"
  let ?cas = "[\<lparr>ArgKey = ''done'', ArgValue = []\<rparr>]"
  let ?r = "\<lparr>RefObjectID = ''abc'', RefName = ''HEAD'', Attributes = [''peeled:def'']\<rparr>"
  let ?ca = "\<lparr>Capabilities = [?c]\<rparr>"
  let ?cr = "\<lparr>Command = ''fetch'', ReqCapabilities = [?c],
              Arguments = [?a, \<lparr>ArgKey = ''done'', ArgValue = []\<rparr>]\<rparr>"
  have s1: "Scan (Capability_Append ?c []) = (Inr ''agent=git/1.0\<newline>'', [])"
    by code_simp
  have s2: "Scan (CommandArgument_Append ?a []) = (Inr ''want abc'', [])"
    by code_simp
  have s3: "Scan (Reference_Append ?r []) = (Inr ''abc HEAD peeled:def\<newline>'', [])"
    by code_simp
  have v1: "Capability_valid ?c"
    by (simp add: Capability_valid_def Capability_line_def fits_def)
  have v2: "CommandArgument_valid ?a"
    by (simp add: CommandArgument_valid_def CommandArgument_line_def fits_def)
  have v3: "\<forall>c \<in> set ?cs. Capability_valid c"
    by (simp add: Capability_valid_def Capability_line_def fits_def)
  have v4: "\<forall>a \<in> set ?cas. CommandArgument_valid a"
    by (simp add: CommandArgument_valid_def CommandArgument_line_def fits_def)
  have v5: "Reference_valid ?r"
    by (simp add: Reference_valid_def Reference_line_def fits_def)
  have v6: "CapabilityAdvertisement_valid ?ca"
    using v1 by (simp add: CapabilityAdvertisement_valid_def)
  have v7: "CommandRequest_valid ?cr"
    using v1 v2 v4 by (simp add: CommandRequest_valid_def fits_def)
  have b: "CommandRequest_Append ?cr []
       = ''0012command=fetch\<newline>0012agent=git/1.0\<newline>0001000cwant abc0008done0000''"
    by code_simp
  note t = roundtrip [of ?c ?a ?cs ?cas ?r ?ca ?cr]
  from t v1 v2 v3 v4 v5 v6 v7 s1 s2 s3 b show ?thesis
    by simp
qed

subsection \<open>C5: the advertisement of the test suite\<close>

text \<open>
  C5: \<open>CapabilityAdvertisement.Parse\<close> on the literal advertisement of the test suite
  yields the five capabilities in their order, and \<open>Append\<close> on that value gives the
  same bytes back.
\<close>

theorem CapabilityAdvertisement_literal:
  "CapabilityAdvertisement_Parse CapabilityAdvertisement_zero
     ''000eversion 2\<newline>0022agent=git/github-8e2ff7c5586f\<newline>0013ls-refs=unborn\<newline>0027fetch=shallow wait-for-done filter\<newline>0012server-option\<newline>0017object-format=sha1\<newline>0000''
   = (None,
      \<lparr>Capabilities =
         [\<lparr>CapKey = ''agent'', CapValue = ''git/github-8e2ff7c5586f''\<rparr>,
          \<lparr>CapKey = ''ls-refs'', CapValue = ''unborn''\<rparr>,
          \<lparr>CapKey = ''fetch'', CapValue = ''shallow wait-for-done filter''\<rparr>,
          \<lparr>CapKey = ''server-option'', CapValue = []\<rparr>,
          \<lparr>CapKey = ''object-format'', CapValue = ''sha1''\<rparr>]\<rparr>,
      [])
   \<and> CapabilityAdvertisement_Append
       \<lparr>Capabilities =
         [\<lparr>CapKey = ''agent'', CapValue = ''git/github-8e2ff7c5586f''\<rparr>,
          \<lparr>CapKey = ''ls-refs'', CapValue = ''unborn''\<rparr>,
          \<lparr>CapKey = ''fetch'', CapValue = ''shallow wait-for-done filter''\<rparr>,
          \<lparr>CapKey = ''server-option'', CapValue = []\<rparr>,
          \<lparr>CapKey = ''object-format'', CapValue = ''sha1''\<rparr>]\<rparr> []
     = ''000eversion 2\<newline>0022agent=git/github-8e2ff7c5586f\<newline>0013ls-refs=unborn\<newline>0027fetch=shallow wait-for-done filter\<newline>0012server-option\<newline>0017object-format=sha1\<newline>0000''"
  by code_simp

subsection \<open>C6: the two pair decoders\<close>

text \<open>
  C6 says that, for every input line, a non-empty key with no separator decodes to the
  pair of that key alone. The capability decoder first requires the line feed that ends
  a capability line: on \<^verbatim>\<open>invalid\<close>, whose key segment is not empty and which holds no
  \<^verbatim>\<open>=\<close>, it returns the malformed-pair error. The test suite expects the same.
\<close>

theorem Capability_Parse_no_linefeed_counterexample:
  "Cut ''invalid'' ''='' = (''invalid'', [], False)
   \<and> Capability_Parse Capability_zero ''invalid''
       = (Some (Errorf ''invalid capability: %q'' ''invalid''), Capability_zero)"
  by code_simp

text \<open>
  C6, amended: a capability line that does not end in a line feed is a malformed-pair
  error. Otherwise the capability decoder splits what precedes that line feed at the
  first \<^verbatim>\<open>=\<close>, and the argument decoder splits the whole line at the first space:
  the key is what precedes the separator, the value all that follows it. Each returns
  the malformed-pair error when the key is empty or when a separator was found with
  nothing after it; otherwise the decoded pair is the key alone when no separator was
  found, and the key with the value when one was.
\<close>

theorem pair_decoders:
  "(\<not> suffix ''\<newline>'' line \<longrightarrow>
      Capability_Parse Capability_zero line
        = (Some (Errorf ''invalid capability: %q'' line), Capability_zero))
   \<and> (let key = takeWhile (\<lambda>x. x \<noteq> CHR ''='') body;
           found = (CHR ''='' \<in> set body);
           val = tl (dropWhile (\<lambda>x. x \<noteq> CHR ''='') body)
       in if key = [] \<or> (found \<and> val = [])
          then fst (Capability_Parse Capability_zero (body @ ''\<newline>''))
                 = Some (Errorf ''invalid capability: %q'' (body @ ''\<newline>''))
          else Capability_Parse Capability_zero (body @ ''\<newline>'')
                 = (None, \<lparr>CapKey = key, CapValue = (if found then val else [])\<rparr>))
   \<and> (let key = takeWhile (\<lambda>x. x \<noteq> CHR '' '') line;
           found = (CHR '' '' \<in> set line);
           val = tl (dropWhile (\<lambda>x. x \<noteq> CHR '' '') line)
       in if key = [] \<or> (found \<and> val = [])
          then fst (CommandArgument_Parse CommandArgument_zero line)
                 = Some (Errorf ''invalid argument: %q'' line)
          else CommandArgument_Parse CommandArgument_zero line
                 = (None, \<lparr>ArgKey = key, ArgValue = (if found then val else [])\<rparr>))"
proof (intro conjI)
  show "\<not> suffix ''\<newline>'' line \<longrightarrow>
      Capability_Parse Capability_zero line
        = (Some (Errorf ''invalid capability: %q'' line), Capability_zero)"
    by (simp add: Capability_Parse_def CutSuffix_def)
  show "let key = takeWhile (\<lambda>x. x \<noteq> CHR ''='') body;
           found = (CHR ''='' \<in> set body);
           val = tl (dropWhile (\<lambda>x. x \<noteq> CHR ''='') body)
       in if key = [] \<or> (found \<and> val = [])
          then fst (Capability_Parse Capability_zero (body @ ''\<newline>''))
                 = Some (Errorf ''invalid capability: %q'' (body @ ''\<newline>''))
          else Capability_Parse Capability_zero (body @ ''\<newline>'')
                 = (None, \<lparr>CapKey = key, CapValue = (if found then val else [])\<rparr>)"
    by (simp add: Capability_Parse_def Cut_char Capability_zero_def Let_def tl_Nil_iff)
  show "let key = takeWhile (\<lambda>x. x \<noteq> CHR '' '') line;
           found = (CHR '' '' \<in> set line);
           val = tl (dropWhile (\<lambda>x. x \<noteq> CHR '' '') line)
       in if key = [] \<or> (found \<and> val = [])
          then fst (CommandArgument_Parse CommandArgument_zero line)
                 = Some (Errorf ''invalid argument: %q'' line)
          else CommandArgument_Parse CommandArgument_zero line
                 = (None, \<lparr>ArgKey = key, ArgValue = (if found then val else [])\<rparr>)"
    by (simp add: CommandArgument_Parse_def Cut_char CommandArgument_zero_def Let_def tl_Nil_iff)
qed

theorem pair_decoders_witness:
  "\<not> suffix ''\<newline>'' ''invalid''
   \<and> Capability_Parse Capability_zero ''invalid''
        = (Some (Errorf ''invalid capability: %q'' ''invalid''), Capability_zero)
   \<and> Capability_Parse Capability_zero ''key=value\<newline>''
        = (None, \<lparr>CapKey = ''key'', CapValue = ''value''\<rparr>)
   \<and> fst (CommandArgument_Parse CommandArgument_zero '' value'')
        = Some (Errorf ''invalid argument: %q'' '' value'')"
proof -
  have n: "\<not> suffix ''\<newline>'' ''invalid''"
    by code_simp
  from n pair_decoders [of "''invalid''" "''key=value''"] pair_decoders [of "'' value''" "[]"]
  show ?thesis by (simp add: Let_def)
qed

subsection \<open>C7: empty attributes of a reference\<close>

text \<open>
  C7: a reference line is an object id, a space, a name, then one space before each
  attribute, and the line feed. Two adjacent spaces after the name are an attribute of
  length zero between them. \<open>Reference.Parse\<close> accepts every such line and appends the
  attributes in their order, the empty ones at their positions.
\<close>

theorem Reference_Parse_empty_attribute:
  assumes "CHR '' '' \<notin> set objID" and "CHR '' '' \<notin> set name"
    and "\<forall>a \<in> set attrs. CHR '' '' \<notin> set a"
  shows "Reference_Parse r (objID @ '' '' @ name @ concat (map (\<lambda>a. '' '' @ a) attrs) @ ''\<newline>'')
           = (None, r\<lparr>RefObjectID := objID, RefName := name,
                       Attributes := Attributes r @ attrs\<rparr>)
         \<and> (\<forall>i < length attrs. attrs ! i = [] \<longrightarrow>
              Attributes (snd (Reference_Parse r
                 (objID @ '' '' @ name @ concat (map (\<lambda>a. '' '' @ a) attrs) @ ''\<newline>'')))
                ! (length (Attributes r) + i) = [])"
  using Reference_Parse_line [OF assms, of r] by (simp add: nth_append)

theorem Reference_Parse_empty_attribute_witness:
  "CHR '' '' \<notin> set ''abc'' \<and> CHR '' '' \<notin> set ''HEAD''
   \<and> CHR '' '' \<notin> set [] \<and> CHR '' '' \<notin> set ''x''
   \<and> Reference_Parse Reference_zero ''abc HEAD  x\<newline>''
       = (None, \<lparr>RefObjectID = ''abc'', RefName = ''HEAD'', Attributes = [[], ''x'']\<rparr>)"
  using Reference_Parse_empty_attribute [of "''abc''" "''HEAD''" "[[], ''x'']" Reference_zero]
  by (simp add: Reference_zero_def)

subsection \<open>C8: a reference line without a name\<close>

text \<open>
  C8 says that \<open>Reference.Parse\<close> does not fail on a line that carries only an object
  id. It does fail: the first cut must find a space. On \<^verbatim>\<open>abc\<close> followed by a line feed
  the call returns the error \<^verbatim>\<open>invalid ref\<close> and leaves the receiver as it was.
\<close>

theorem Reference_Parse_only_objectid_counterexample:
  "Reference_Parse Reference_zero ''abc\<newline>''
   = (Some (Errorf ''invalid ref: %q'' ''abc\<newline>''), Reference_zero)"
  by code_simp

text \<open>
  C8, amended: \<open>Reference.Parse\<close> rejects a line-feed-terminated line that holds an
  object id and no space; it accepts the line in which the object id is followed by one
  space and an empty name, and then records the object id, the empty name and no
  attribute.
\<close>

theorem Reference_Parse_no_name:
  assumes "CHR '' '' \<notin> set objID"
  shows "Reference_Parse r (objID @ ''\<newline>'')
           = (Some (Errorf ''invalid ref: %q'' (objID @ ''\<newline>'')), r)
         \<and> Reference_Parse r (objID @ '' \<newline>'')
           = (None, r\<lparr>RefObjectID := objID, RefName := []\<rparr>)"
proof
  show "Reference_Parse r (objID @ ''\<newline>'')
          = (Some (Errorf ''invalid ref: %q'' (objID @ ''\<newline>'')), r)"
    using assms by (simp add: Reference_Parse_def Cut_absent)
  have "objID @ '' \<newline>'' = (objID @ '' '') @ ''\<newline>''" by simp
  then have "CutSuffix (objID @ '' \<newline>'') ''\<newline>'' = Some (objID @ '' '')"
    by (simp only: CutSuffix_append)
  moreover have "Cut (objID @ '' '') '' '' = (objID, [], True)"
    using Cut_first [OF assms, of "[]"] by simp
  ultimately show "Reference_Parse r (objID @ '' \<newline>'')
          = (None, r\<lparr>RefObjectID := objID, RefName := []\<rparr>)"
    by (simp add: Reference_Parse_def Reference_Parse_attrs.simps)
qed

theorem Reference_Parse_no_name_witness:
  "CHR '' '' \<notin> set ''abc''
   \<and> Reference_Parse Reference_zero ''abc\<newline>''
       = (Some (Errorf ''invalid ref: %q'' ''abc\<newline>''), Reference_zero)
   \<and> Reference_Parse Reference_zero ''abc \<newline>''
       = (None, \<lparr>RefObjectID = ''abc'', RefName = [], Attributes = []\<rparr>)"
  using Reference_Parse_no_name [of "''abc''" Reference_zero]
  by (simp add: Reference_zero_def)

subsection \<open>C9: lines the acknowledgements decoder does not know\<close>

text \<open>
  C9: a line of the acknowledgements section that does not start with \<^verbatim>\<open>ACK \<close> and is
  neither \<^verbatim>\<open>NAK\<close> nor \<^verbatim>\<open>ready\<close> (each with its line feed) is skipped:
  \<open>Acknowledgements.Parse\<close> goes on with the next unit and the same field values, and
  returns no error for that line. \<open>ShallowInfo.Parse\<close> returns a malformed error on a
  line that starts with neither of its two prefixes.
\<close>

theorem Acknowledgements_Parse_skips_unknown:
  assumes "Scan sc = (Inr line, sc')"
    and "\<not> prefix ''ACK '' line" and "line \<noteq> ''NAK\<newline>''" and "line \<noteq> ''ready\<newline>''"
  shows "Acknowledgements_Parse a sc = Acknowledgements_Parse a sc'
         \<and> (\<not> prefix ''shallow '' line \<and> \<not> prefix ''unshallow '' line \<longrightarrow>
              ShallowInfo_Parse si sc = (Some (Errorf ''invalid shallow-info: %q'' line), si, sc'))"
proof
  show "Acknowledgements_Parse a sc = Acknowledgements_Parse a sc'"
    using assms by (subst Acknowledgements_Parse.simps) (simp add: CutPrefix_def)
  show "\<not> prefix ''shallow '' line \<and> \<not> prefix ''unshallow '' line \<longrightarrow>
          ShallowInfo_Parse si sc = (Some (Errorf ''invalid shallow-info: %q'' line), si, sc')"
    using assms(1) by (subst ShallowInfo_Parse.simps) simp
qed

theorem Acknowledgements_Parse_skips_unknown_witness:
  "Scan ''0008foo\<newline>0008NAK\<newline>0000'' = (Inr ''foo\<newline>'', ''0008NAK\<newline>0000'')
   \<and> \<not> prefix ''ACK '' ''foo\<newline>'' \<and> ''foo\<newline>'' \<noteq> ''NAK\<newline>'' \<and> ''foo\<newline>'' \<noteq> ''ready\<newline>''
   \<and> \<not> prefix ''shallow '' ''foo\<newline>'' \<and> \<not> prefix ''unshallow '' ''foo\<newline>''
   \<and> Acknowledgements_Parse Acknowledgements_zero ''0008foo\<newline>0008NAK\<newline>0000''
       = (Some ErrFlushPkt, Acknowledgements_zero\<lparr>NAK := True\<rparr>, [])
   \<and> ShallowInfo_Parse ShallowInfo_zero ''0008foo\<newline>0008NAK\<newline>0000''
       = (Some (Errorf ''invalid shallow-info: %q'' ''foo\<newline>''), ShallowInfo_zero,
          ''0008NAK\<newline>0000'')"
proof -
  have s: "Scan ''0008foo\<newline>0008NAK\<newline>0000'' = (Inr ''foo\<newline>'', ''0008NAK\<newline>0000'')"
    by code_simp
  have r: "Acknowledgements_Parse Acknowledgements_zero ''0008NAK\<newline>0000''
           = (Some ErrFlushPkt, Acknowledgements_zero\<lparr>NAK := True\<rparr>, [])"
    by code_simp
  from Acknowledgements_Parse_skips_unknown
         [OF s, of Acknowledgements_zero ShallowInfo_zero] s r
  show ?thesis by simp
qed

subsection \<open>C10: what the encoder leaves to the caller\<close>

text \<open>
  C10: for every fetch response whose acknowledgements do not have \<open>NAK\<close> set, the
  output of \<open>Append\<close> is the buffer it was given followed by framed payloads and at most
  delimiters, and it ends with the frame of the header line \<^verbatim>\<open>packfile\<close>: no flush
  marker is written and nothing follows the header. When every line of the response
  fits one framed unit, the units a scanner reads from the output are exactly those,
  none of them the flush marker, then the header, then the end of the input.
\<close>

theorem FetchResponse_Append_no_flush:
  assumes "\<not> NAK (Acknowledgements fr)"
  shows "\<exists>us. FetchResponse_Append fr b = b @ concat (map render us) @ ''000dpackfile\<newline>''
              \<and> (\<forall>u \<in> set us. u = Inl ErrDelimPkt \<or> (\<exists>l. u = Inr l))
              \<and> Inl ErrFlushPkt \<notin> set us
              \<and> (FetchResponse_fits fr \<longrightarrow>
                   pkt_units (FetchResponse_Append fr [])
                     = us @ [Inr ''packfile\<newline>'', Inl EOF])"
proof -
  define U1 :: "(error + bytes) list" where "U1 =
    (if \<not> Acknowledgements_IsZero (Acknowledgements fr)
     then map Inr (Acknowledgements_lines (Acknowledgements fr)) @ [Inl ErrDelimPkt] else [])"
  define U2 :: "(error + bytes) list" where "U2 =
    (if \<not> ShallowInfo_IsZero (ShallowInfo fr)
     then map Inr (ShallowInfo_lines (ShallowInfo fr)) else [])"
  define U3 :: "(error + bytes) list" where "U3 =
    (if \<not> WantedRefs_IsZero (WantedRefs fr) then map Inr (WantedRefs_lines (WantedRefs fr))
     else [])"
  define U4 :: "(error + bytes) list" where "U4 =
    (if \<not> PackfileURIs_IsZero (PackfileURIs fr)
     then map Inr (PackfileURIs_lines (PackfileURIs fr)) else [])"
  define us :: "(error + bytes) list" where "us = U1 @ U2 @ U3 @ U4"
  have r1: "concat (map render U1)
            = (if \<not> Acknowledgements_IsZero (Acknowledgements fr)
               then frames (Acknowledgements_lines (Acknowledgements fr)) @ ''0001'' else [])"
    by (simp add: U1_def render_frames render.simps AppendDelimPkt_def)
  have r2: "concat (map render U2)
            = (if \<not> ShallowInfo_IsZero (ShallowInfo fr)
               then frames (ShallowInfo_lines (ShallowInfo fr)) else [])"
    by (simp add: U2_def render_frames)
  have r3: "concat (map render U3)
            = (if \<not> WantedRefs_IsZero (WantedRefs fr)
               then frames (WantedRefs_lines (WantedRefs fr)) else [])"
    by (simp add: U3_def render_frames)
  have r4: "concat (map render U4)
            = (if \<not> PackfileURIs_IsZero (PackfileURIs fr)
               then frames (PackfileURIs_lines (PackfileURIs fr)) else [])"
    by (simp add: U4_def render_frames)
  have out: "FetchResponse_Append fr b' = b' @ concat (map render us) @ ''000dpackfile\<newline>''"
    for b'
    using assms
    by (simp add: FetchResponse_Append_def Let_def us_def r1 r2 r3 r4
          Acknowledgements_Append_frames ShallowInfo_Append_frames WantedRefs_Append_frames
          PackfileURIs_Append_frames AppendDelimPkt_def AppendString_render packfile_header)
  have shape: "\<forall>u \<in> set us. u = Inl ErrDelimPkt \<or> (\<exists>l. u = Inr l)"
    by (auto simp: us_def U1_def U2_def U3_def U4_def)
  then have noflush: "Inl ErrFlushPkt \<notin> set us"
    by auto
  have units: "pkt_units (FetchResponse_Append fr []) = us @ [Inr ''packfile\<newline>'', Inl EOF]"
    if fit: "FetchResponse_fits fr"
  proof -
    have f1: "\<forall>l \<in> set (Acknowledgements_lines (Acknowledgements fr)). fits l"
      using fit by (auto simp: Acknowledgements_lines_def FetchResponse_fits_def fits_def)
    have f2: "\<forall>l \<in> set (ShallowInfo_lines (ShallowInfo fr)). fits l"
      using fit by (auto simp: ShallowInfo_lines_def FetchResponse_fits_def fits_def)
    have f3: "\<forall>l \<in> set (WantedRefs_lines (WantedRefs fr)). fits l"
      using fit by (auto simp: WantedRefs_lines_def FetchResponse_fits_def fits_def)
    have f4: "\<forall>l \<in> set (PackfileURIs_lines (PackfileURIs fr)). fits l"
      using fit by (auto simp: PackfileURIs_lines_def FetchResponse_fits_def fits_def)
    have all: "\<forall>u \<in> set us. (\<exists>l. u = Inr l \<and> fits l) \<or> u = Inl ErrDelimPkt"
      using f1 f2 f3 f4 by (auto simp: us_def U1_def U2_def U3_def U4_def)
    have "fits ''packfile\<newline>''" by (simp add: fits_def)
    then have "pkt_units (render (Inr ''packfile\<newline>'') @ []) = [Inr ''packfile\<newline>'', Inl EOF]"
      by (simp only: pkt_units_frame pkt_units_Nil)
    then have last: "pkt_units ''000dpackfile\<newline>'' = [Inr ''packfile\<newline>'', Inl EOF]"
      by (simp add: packfile_header)
    have "pkt_units (FetchResponse_Append fr [])
          = pkt_units (concat (map render us) @ ''000dpackfile\<newline>'')"
      by (simp add: out)
    also have "\<dots> = us @ pkt_units ''000dpackfile\<newline>''"
      by (rule pkt_units_render [OF all])
    finally show ?thesis by (simp add: last)
  qed
  from out shape noflush units show ?thesis by blast
qed

theorem FetchResponse_Append_no_flush_witness:
  "\<not> NAK (Acknowledgements
       \<lparr>Acknowledgements = \<lparr>Ready = True, NAK = False, ACKs = Some [''abc'']\<rparr>,
        ShallowInfo = \<lparr>Shallow = Some [\<lparr>ShallowObjectID = ''a''\<rparr>], Unshallow = None\<rparr>,
        WantedRefs = None, PackfileURIs = None\<rparr>)
   \<and> Inl ErrFlushPkt \<notin> set (pkt_units (FetchResponse_Append
       \<lparr>Acknowledgements = \<lparr>Ready = True, NAK = False, ACKs = Some [''abc'']\<rparr>,
        ShallowInfo = \<lparr>Shallow = Some [\<lparr>ShallowObjectID = ''a''\<rparr>], Unshallow = None\<rparr>,
        WantedRefs = None, PackfileURIs = None\<rparr> []))
   \<and> suffix ''000dpackfile\<newline>'' (FetchResponse_Append
       \<lparr>Acknowledgements = \<lparr>Ready = True, NAK = False, ACKs = Some [''abc'']\<rparr>,
        ShallowInfo = \<lparr>Shallow = Some [\<lparr>ShallowObjectID = ''a''\<rparr>], Unshallow = None\<rparr>,
        WantedRefs = None, PackfileURIs = None\<rparr> [])
   \<and> FetchResponse_Append
       \<lparr>Acknowledgements = \<lparr>Ready = True, NAK = False, ACKs = Some [''abc'']\<rparr>,
        ShallowInfo = \<lparr>Shallow = Some [\<lparr>ShallowObjectID = ''a''\<rparr>], Unshallow = None\<rparr>,
        WantedRefs = None, PackfileURIs = None\<rparr> []
     = ''0014acknowledgments\<newline>000aready\<newline>000cACK abc\<newline>00010011shallow-info\<newline>000eshallow a\<newline>000dpackfile\<newline>''"
proof -
  let ?fr = "\<lparr>Acknowledgements = \<lparr>Ready = True, NAK = False, ACKs = Some [''abc'']\<rparr>,
        ShallowInfo = \<lparr>Shallow = Some [\<lparr>ShallowObjectID = ''a''\<rparr>], Unshallow = None\<rparr>,
        WantedRefs = None, PackfileURIs = None\<rparr>"
  have n: "\<not> NAK (Acknowledgements ?fr)" by simp
  have f: "FetchResponse_fits ?fr"
    by (simp add: FetchResponse_fits_def elems_def fits_def)
  from FetchResponse_Append_no_flush [OF n, of "[]"] f
  obtain us where a: "FetchResponse_Append ?fr [] = concat (map render us) @ ''000dpackfile\<newline>''"
    and b: "Inl ErrFlushPkt \<notin> set us"
    and c: "pkt_units (FetchResponse_Append ?fr []) = us @ [Inr ''packfile\<newline>'', Inl EOF]"
    by auto
  have s: "suffix ''000dpackfile\<newline>'' (FetchResponse_Append ?fr [])"
    unfolding a by (rule suffixI) simp
  have v: "FetchResponse_Append ?fr []
     = ''0014acknowledgments\<newline>000aready\<newline>000cACK abc\<newline>00010011shallow-info\<newline>000eshallow a\<newline>000dpackfile\<newline>''"
    by code_simp
  from n b c s v show ?thesis by simp
qed

end
